theory Spec2Isabelle
  imports Complex_Main
begin

section \<open>Data model (src/src/shared/types/index.ts)\<close>

text \<open>
  A JavaScript string is the list of its UTF-16 code units. Identifiers that the code
  only compares for equality (ids, platform and namespace names) are plain strings.
  A timestamp is the number of milliseconds since the epoch, the value that
  \<open>new Date(s).getTime()\<close> reads from the stored ISO string. JavaScript numbers are
  modelled as reals: \<open>Math.exp\<close> is \<open>exp\<close>, \<open>Math.pow(0.5, x)\<close> is \<open>(1/2) powr x\<close>,
  and the binary64 rounding of the single operations is not modelled.
\<close>

type_synonym jsstring = "nat list"

definition js :: "string \<Rightarrow> jsstring" where
  "js s = map of_char s"

datatype status = Active | Superseded | Deleted | Expired

text \<open>
  \<open>body.type\<close> is a string in the code. \<open>OtherType s\<close> is a string other than the four
  known ones, \<open>NoType\<close> a missing or empty one (\<open>mem.body?.type || 'episodic'\<close> reads
  it as falsy). Where the code uses the type as the key of a table (\<open>typePriority[type]\<close>,
  \<open>typeScores[type]\<close>), a string other than the four known ones has no entry; the names
  of the properties that every object inherits, such as \<open>constructor\<close>, are not among
  the strings that \<open>OtherType\<close> stands for.
\<close>

datatype memory_type = Pinned | Persona | Core | Episodic | OtherType string | NoType

datatype sensitivity = Normal | Sensitive | HighlySensitive

datatype origin = Auto | Manual

datatype tier = Hot | Warm | Cold

record V5Dimensions =
  confidence :: real
  importance :: real
  time_decay :: real
  recall_priority :: real
  dim_compressed :: bool
  dim_compression_level :: "nat option"

record V5Relations =
  supersedes :: "string option"
  related_to :: "string list"
  conversation_id :: "string option"
  turn_id :: "string option"

record V5Lifecycle =
  createdAt :: int
  updatedAt :: int
  lastUsedAt :: "int option"
  expiresAt :: "int option"
  ttl :: int
  status :: status

record V5Security =
  sensitivity :: sensitivity
  masked :: bool
  origin :: origin

text \<open>
  \<open>meta_status\<close> is the property \<open>meta.status\<close>, which is not part of the declared
  schema: the engine assigns it in \<open>write\<close>, \<open>handleConflict\<close> and \<open>cleanup\<close>.
  \<open>storage_tier\<close> and \<open>last_migrated\<close> are set by the tiered storage.
\<close>

record V5MemoryMeta =
  meta_id :: string
  platform :: string
  namespace :: string
  tags :: "jsstring list"
  dimensions :: "V5Dimensions option"
  relations :: V5Relations
  lifecycle :: V5Lifecycle
  security :: V5Security
  meta_status :: "status option"
  storage_tier :: "tier option"
  last_migrated :: "int option"

record V5MemoryBody =
  body_type :: memory_type
  body_text :: jsstring
  raw_content :: jsstring
  original_text :: "jsstring option"
  compression_level :: "nat option"
  body_keywords :: "jsstring list option"
  compressed :: "bool option"

record V5Memory =
  meta :: V5MemoryMeta
  body :: V5MemoryBody
  usageCount :: nat

text \<open>\<open>{...mem, recallScore}\<close>: a memory with its score.\<close>

record V5MemoryWithScore = V5Memory +
  recallScore :: real

record budget =
  persona :: int
  core :: int
  episodic :: int

text \<open>
  The engine's configuration. A regular expression of \<open>sensitivityPatterns\<close> is the
  predicate that its \<open>test\<close> method computes.
\<close>

record V5EngineConfig =
  cfg_gamma :: real
  cfg_barrier :: real
  recallThreshold :: real
  writeThreshold :: real
  cfg_platform :: string
  cfg_namespace :: string
  cfg_budget :: budget
  autoMaskSensitive :: bool
  sensitivityPatterns :: "(jsstring \<Rightarrow> bool) list"

section \<open>Built-in operations on strings\<close>

text \<open>
  \<open>String.prototype.toLowerCase\<close> reads the string as code points (a high surrogate
  followed by a low surrogate is one code point), replaces every code point by its
  lower-case mapping and writes the result back as code units. The mappings are those
  of the Unicode Character Database, version 14.0. A run \<open>(lo, hi, step, target)\<close>
  of \<open>lowerCaseRuns\<close> maps the code points \<open>lo\<close>, \<open>lo + step\<close>, ... up to \<open>hi\<close> to
  \<open>target\<close>, \<open>target + step\<close>, ...; the letters A to Z are mapped without the table.
\<close>

definition lowerCaseRuns :: "(nat \<times> nat \<times> nat \<times> nat) list" where
  "lowerCaseRuns =
     [(192, 214, 1, 224), (216, 222, 1, 248), (256, 302, 2, 257), (306, 310, 2, 307),
      (313, 327, 2, 314), (330, 374, 2, 331), (376, 376, 1, 255), (377, 381, 2, 378),
      (385, 385, 1, 595), (386, 388, 2, 387), (390, 390, 1, 596), (391, 391, 1, 392),
      (393, 394, 1, 598), (395, 395, 1, 396), (398, 398, 1, 477), (399, 399, 1, 601),
      (400, 400, 1, 603), (401, 401, 1, 402), (403, 403, 1, 608), (404, 404, 1, 611),
      (406, 406, 1, 617), (407, 407, 1, 616), (408, 408, 1, 409), (412, 412, 1, 623),
      (413, 413, 1, 626), (415, 415, 1, 629), (416, 420, 2, 417), (422, 422, 1, 640),
      (423, 423, 1, 424), (425, 425, 1, 643), (428, 428, 1, 429), (430, 430, 1, 648),
      (431, 431, 1, 432), (433, 434, 1, 650), (435, 437, 2, 436), (439, 439, 1, 658),
      (440, 440, 1, 441), (444, 444, 1, 445), (452, 452, 1, 454), (453, 453, 1, 454),
      (455, 455, 1, 457), (456, 456, 1, 457), (458, 458, 1, 460), (459, 475, 2, 460),
      (478, 494, 2, 479), (497, 497, 1, 499), (498, 500, 2, 499), (502, 502, 1, 405),
      (503, 503, 1, 447), (504, 542, 2, 505), (544, 544, 1, 414), (546, 562, 2, 547),
      (570, 570, 1, 11365), (571, 571, 1, 572), (573, 573, 1, 410), (574, 574, 1, 11366),
      (577, 577, 1, 578), (579, 579, 1, 384), (580, 580, 1, 649), (581, 581, 1, 652),
      (582, 590, 2, 583), (880, 882, 2, 881), (886, 886, 1, 887), (895, 895, 1, 1011),
      (902, 902, 1, 940), (904, 906, 1, 941), (908, 908, 1, 972), (910, 911, 1, 973),
      (913, 929, 1, 945), (931, 939, 1, 963), (975, 975, 1, 983), (984, 1006, 2, 985),
      (1012, 1012, 1, 952), (1015, 1015, 1, 1016), (1017, 1017, 1, 1010), (1018, 1018, 1, 1019),
      (1021, 1023, 1, 891), (1024, 1039, 1, 1104), (1040, 1071, 1, 1072), (1120, 1152, 2, 1121),
      (1162, 1214, 2, 1163), (1216, 1216, 1, 1231), (1217, 1229, 2, 1218), (1232, 1326, 2, 1233),
      (1329, 1366, 1, 1377), (4256, 4293, 1, 11520), (4295, 4295, 1, 11559),
      (4301, 4301, 1, 11565), (5024, 5103, 1, 43888), (5104, 5109, 1, 5112),
      (7312, 7354, 1, 4304), (7357, 7359, 1, 4349), (7680, 7828, 2, 7681), (7838, 7838, 1, 223),
      (7840, 7934, 2, 7841), (7944, 7951, 1, 7936), (7960, 7965, 1, 7952), (7976, 7983, 1, 7968),
      (7992, 7999, 1, 7984), (8008, 8013, 1, 8000), (8025, 8031, 2, 8017), (8040, 8047, 1, 8032),
      (8072, 8079, 1, 8064), (8088, 8095, 1, 8080), (8104, 8111, 1, 8096), (8120, 8121, 1, 8112),
      (8122, 8123, 1, 8048), (8124, 8124, 1, 8115), (8136, 8139, 1, 8050), (8140, 8140, 1, 8131),
      (8152, 8153, 1, 8144), (8154, 8155, 1, 8054), (8168, 8169, 1, 8160), (8170, 8171, 1, 8058),
      (8172, 8172, 1, 8165), (8184, 8185, 1, 8056), (8186, 8187, 1, 8060), (8188, 8188, 1, 8179),
      (8486, 8486, 1, 969), (8490, 8490, 1, 107), (8491, 8491, 1, 229), (8498, 8498, 1, 8526),
      (8544, 8559, 1, 8560), (8579, 8579, 1, 8580), (9398, 9423, 1, 9424),
      (11264, 11311, 1, 11312), (11360, 11360, 1, 11361), (11362, 11362, 1, 619),
      (11363, 11363, 1, 7549), (11364, 11364, 1, 637), (11367, 11371, 2, 11368),
      (11373, 11373, 1, 593), (11374, 11374, 1, 625), (11375, 11375, 1, 592),
      (11376, 11376, 1, 594), (11378, 11378, 1, 11379), (11381, 11381, 1, 11382),
      (11390, 11391, 1, 575), (11392, 11490, 2, 11393), (11499, 11501, 2, 11500),
      (11506, 11506, 1, 11507), (42560, 42604, 2, 42561), (42624, 42650, 2, 42625),
      (42786, 42798, 2, 42787), (42802, 42862, 2, 42803), (42873, 42875, 2, 42874),
      (42877, 42877, 1, 7545), (42878, 42886, 2, 42879), (42891, 42891, 1, 42892),
      (42893, 42893, 1, 613), (42896, 42898, 2, 42897), (42902, 42920, 2, 42903),
      (42922, 42922, 1, 614), (42923, 42923, 1, 604), (42924, 42924, 1, 609),
      (42925, 42925, 1, 620), (42926, 42926, 1, 618), (42928, 42928, 1, 670),
      (42929, 42929, 1, 647), (42930, 42930, 1, 669), (42931, 42931, 1, 43859),
      (42932, 42946, 2, 42933), (42948, 42948, 1, 42900), (42949, 42949, 1, 642),
      (42950, 42950, 1, 7566), (42951, 42953, 2, 42952), (42960, 42960, 1, 42961),
      (42966, 42968, 2, 42967), (42997, 42997, 1, 42998), (65313, 65338, 1, 65345),
      (66560, 66599, 1, 66600), (66736, 66771, 1, 66776), (66928, 66938, 1, 66967),
      (66940, 66954, 1, 66979), (66956, 66962, 1, 66995), (66964, 66965, 1, 67003),
      (68736, 68786, 1, 68800), (71840, 71871, 1, 71872), (93760, 93791, 1, 93792),
      (125184, 125217, 1, 125218)]"

text \<open>
  Two mappings depend on more than the code point. U+0130 becomes the two code points
  U+0069 U+0307. U+03A3 becomes U+03C2 where it ends a word and U+03C3 elsewhere: it
  ends a word when, skipping the case-ignorable code points, a cased code point comes
  before it and none comes after it. \<open>casedRanges\<close> holds the cased code points that are
  not case-ignorable, \<open>caseIgnorableRanges\<close> the case-ignorable ones.
\<close>

definition casedRanges :: "(nat \<times> nat) list" where
  "casedRanges =
     [(65, 90), (97, 122), (170, 170), (181, 181), (186, 186), (192, 214), (216, 246),
      (248, 442), (444, 447), (452, 659), (661, 687), (880, 883), (886, 887), (891, 893),
      (895, 895), (902, 902), (904, 906), (908, 908), (910, 929), (931, 1013), (1015, 1153),
      (1162, 1327), (1329, 1366), (1376, 1416), (4256, 4293), (4295, 4295), (4301, 4301),
      (4304, 4346), (4349, 4351), (5024, 5109), (5112, 5117), (7296, 7304), (7312, 7354),
      (7357, 7359), (7424, 7467), (7531, 7543), (7545, 7578), (7680, 7957), (7960, 7965),
      (7968, 8005), (8008, 8013), (8016, 8023), (8025, 8025), (8027, 8027), (8029, 8029),
      (8031, 8061), (8064, 8116), (8118, 8124), (8126, 8126), (8130, 8132), (8134, 8140),
      (8144, 8147), (8150, 8155), (8160, 8172), (8178, 8180), (8182, 8188), (8450, 8450),
      (8455, 8455), (8458, 8467), (8469, 8469), (8473, 8477), (8484, 8484), (8486, 8486),
      (8488, 8488), (8490, 8493), (8495, 8500), (8505, 8505), (8508, 8511), (8517, 8521),
      (8526, 8526), (8544, 8575), (8579, 8580), (9398, 9449), (11264, 11387), (11390, 11492),
      (11499, 11502), (11506, 11507), (11520, 11557), (11559, 11559), (11565, 11565),
      (42560, 42605), (42624, 42651), (42786, 42863), (42865, 42887), (42891, 42894),
      (42896, 42954), (42960, 42961), (42963, 42963), (42965, 42969), (42997, 42998),
      (43002, 43002), (43824, 43866), (43872, 43880), (43888, 43967), (64256, 64262),
      (64275, 64279), (65313, 65338), (65345, 65370), (66560, 66639), (66736, 66771),
      (66776, 66811), (66928, 66938), (66940, 66954), (66956, 66962), (66964, 66965),
      (66967, 66977), (66979, 66993), (66995, 67001), (67003, 67004), (68736, 68786),
      (68800, 68850), (71840, 71903), (93760, 93823), (119808, 119892), (119894, 119964),
      (119966, 119967), (119970, 119970), (119973, 119974), (119977, 119980), (119982, 119993),
      (119995, 119995), (119997, 120003), (120005, 120069), (120071, 120074), (120077, 120084),
      (120086, 120092), (120094, 120121), (120123, 120126), (120128, 120132), (120134, 120134),
      (120138, 120144), (120146, 120485), (120488, 120512), (120514, 120538), (120540, 120570),
      (120572, 120596), (120598, 120628), (120630, 120654), (120656, 120686), (120688, 120712),
      (120714, 120744), (120746, 120770), (120772, 120779), (122624, 122633), (122635, 122654),
      (125184, 125251), (127280, 127305), (127312, 127337), (127344, 127369)]"

definition caseIgnorableRanges :: "(nat \<times> nat) list" where
  "caseIgnorableRanges =
     [(39, 39), (46, 46), (58, 58), (94, 94), (96, 96), (168, 168), (173, 173), (175, 175),
      (180, 180), (183, 184), (688, 879), (884, 885), (890, 890), (900, 901), (903, 903),
      (1155, 1161), (1369, 1369), (1375, 1375), (1425, 1469), (1471, 1471), (1473, 1474),
      (1476, 1477), (1479, 1479), (1524, 1524), (1536, 1541), (1552, 1562), (1564, 1564),
      (1600, 1600), (1611, 1631), (1648, 1648), (1750, 1757), (1759, 1768), (1770, 1773),
      (1807, 1807), (1809, 1809), (1840, 1866), (1958, 1968), (2027, 2037), (2042, 2042),
      (2045, 2045), (2070, 2093), (2137, 2139), (2184, 2184), (2192, 2193), (2200, 2207),
      (2249, 2306), (2362, 2362), (2364, 2364), (2369, 2376), (2381, 2381), (2385, 2391),
      (2402, 2403), (2417, 2417), (2433, 2433), (2492, 2492), (2497, 2500), (2509, 2509),
      (2530, 2531), (2558, 2558), (2561, 2562), (2620, 2620), (2625, 2626), (2631, 2632),
      (2635, 2637), (2641, 2641), (2672, 2673), (2677, 2677), (2689, 2690), (2748, 2748),
      (2753, 2757), (2759, 2760), (2765, 2765), (2786, 2787), (2810, 2815), (2817, 2817),
      (2876, 2876), (2879, 2879), (2881, 2884), (2893, 2893), (2901, 2902), (2914, 2915),
      (2946, 2946), (3008, 3008), (3021, 3021), (3072, 3072), (3076, 3076), (3132, 3132),
      (3134, 3136), (3142, 3144), (3146, 3149), (3157, 3158), (3170, 3171), (3201, 3201),
      (3260, 3260), (3263, 3263), (3270, 3270), (3276, 3277), (3298, 3299), (3328, 3329),
      (3387, 3388), (3393, 3396), (3405, 3405), (3426, 3427), (3457, 3457), (3530, 3530),
      (3538, 3540), (3542, 3542), (3633, 3633), (3636, 3642), (3654, 3662), (3761, 3761),
      (3764, 3772), (3782, 3782), (3784, 3789), (3864, 3865), (3893, 3893), (3895, 3895),
      (3897, 3897), (3953, 3966), (3968, 3972), (3974, 3975), (3981, 3991), (3993, 4028),
      (4038, 4038), (4141, 4144), (4146, 4151), (4153, 4154), (4157, 4158), (4184, 4185),
      (4190, 4192), (4209, 4212), (4226, 4226), (4229, 4230), (4237, 4237), (4253, 4253),
      (4348, 4348), (4957, 4959), (5906, 5908), (5938, 5939), (5970, 5971), (6002, 6003),
      (6068, 6069), (6071, 6077), (6086, 6086), (6089, 6099), (6103, 6103), (6109, 6109),
      (6155, 6159), (6211, 6211), (6277, 6278), (6313, 6313), (6432, 6434), (6439, 6440),
      (6450, 6450), (6457, 6459), (6679, 6680), (6683, 6683), (6742, 6742), (6744, 6750),
      (6752, 6752), (6754, 6754), (6757, 6764), (6771, 6780), (6783, 6783), (6823, 6823),
      (6832, 6862), (6912, 6915), (6964, 6964), (6966, 6970), (6972, 6972), (6978, 6978),
      (7019, 7027), (7040, 7041), (7074, 7077), (7080, 7081), (7083, 7085), (7142, 7142),
      (7144, 7145), (7149, 7149), (7151, 7153), (7212, 7219), (7222, 7223), (7288, 7293),
      (7376, 7378), (7380, 7392), (7394, 7400), (7405, 7405), (7412, 7412), (7416, 7417),
      (7468, 7530), (7544, 7544), (7579, 7679), (8125, 8125), (8127, 8129), (8141, 8143),
      (8157, 8159), (8173, 8175), (8189, 8190), (8203, 8207), (8216, 8217), (8228, 8228),
      (8231, 8231), (8234, 8238), (8288, 8292), (8294, 8303), (8305, 8305), (8319, 8319),
      (8336, 8348), (8400, 8432), (11388, 11389), (11503, 11505), (11631, 11631), (11647, 11647),
      (11744, 11775), (11823, 11823), (12293, 12293), (12330, 12333), (12337, 12341),
      (12347, 12347), (12441, 12446), (12540, 12542), (40981, 40981), (42232, 42237),
      (42508, 42508), (42607, 42610), (42612, 42621), (42623, 42623), (42652, 42655),
      (42736, 42737), (42752, 42785), (42864, 42864), (42888, 42890), (42994, 42996),
      (43000, 43001), (43010, 43010), (43014, 43014), (43019, 43019), (43045, 43046),
      (43052, 43052), (43204, 43205), (43232, 43249), (43263, 43263), (43302, 43309),
      (43335, 43345), (43392, 43394), (43443, 43443), (43446, 43449), (43452, 43453),
      (43471, 43471), (43493, 43494), (43561, 43566), (43569, 43570), (43573, 43574),
      (43587, 43587), (43596, 43596), (43632, 43632), (43644, 43644), (43696, 43696),
      (43698, 43700), (43703, 43704), (43710, 43711), (43713, 43713), (43741, 43741),
      (43756, 43757), (43763, 43764), (43766, 43766), (43867, 43871), (43881, 43883),
      (44005, 44005), (44008, 44008), (44013, 44013), (64286, 64286), (64434, 64450),
      (65024, 65039), (65043, 65043), (65056, 65071), (65106, 65106), (65109, 65109),
      (65279, 65279), (65287, 65287), (65294, 65294), (65306, 65306), (65342, 65342),
      (65344, 65344), (65392, 65392), (65438, 65439), (65507, 65507), (65529, 65531),
      (66045, 66045), (66272, 66272), (66422, 66426), (67456, 67461), (67463, 67504),
      (67506, 67514), (68097, 68099), (68101, 68102), (68108, 68111), (68152, 68154),
      (68159, 68159), (68325, 68326), (68900, 68903), (69291, 69292), (69446, 69456),
      (69506, 69509), (69633, 69633), (69688, 69702), (69744, 69744), (69747, 69748),
      (69759, 69761), (69811, 69814), (69817, 69818), (69821, 69821), (69826, 69826),
      (69837, 69837), (69888, 69890), (69927, 69931), (69933, 69940), (70003, 70003),
      (70016, 70017), (70070, 70078), (70089, 70092), (70095, 70095), (70191, 70193),
      (70196, 70196), (70198, 70199), (70206, 70206), (70367, 70367), (70371, 70378),
      (70400, 70401), (70459, 70460), (70464, 70464), (70502, 70508), (70512, 70516),
      (70712, 70719), (70722, 70724), (70726, 70726), (70750, 70750), (70835, 70840),
      (70842, 70842), (70847, 70848), (70850, 70851), (71090, 71093), (71100, 71101),
      (71103, 71104), (71132, 71133), (71219, 71226), (71229, 71229), (71231, 71232),
      (71339, 71339), (71341, 71341), (71344, 71349), (71351, 71351), (71453, 71455),
      (71458, 71461), (71463, 71467), (71727, 71735), (71737, 71738), (71995, 71996),
      (71998, 71998), (72003, 72003), (72148, 72151), (72154, 72155), (72160, 72160),
      (72193, 72202), (72243, 72248), (72251, 72254), (72263, 72263), (72273, 72278),
      (72281, 72283), (72330, 72342), (72344, 72345), (72752, 72758), (72760, 72765),
      (72767, 72767), (72850, 72871), (72874, 72880), (72882, 72883), (72885, 72886),
      (73009, 73014), (73018, 73018), (73020, 73021), (73023, 73029), (73031, 73031),
      (73104, 73105), (73109, 73109), (73111, 73111), (73459, 73460), (78896, 78904),
      (92912, 92916), (92976, 92982), (92992, 92995), (94031, 94031), (94095, 94111),
      (94176, 94177), (94179, 94180), (110576, 110579), (110581, 110587), (110589, 110590),
      (113821, 113822), (113824, 113827), (118528, 118573), (118576, 118598), (119143, 119145),
      (119155, 119170), (119173, 119179), (119210, 119213), (119362, 119364), (121344, 121398),
      (121403, 121452), (121461, 121461), (121476, 121476), (121499, 121503), (121505, 121519),
      (122880, 122886), (122888, 122904), (122907, 122913), (122915, 122916), (122918, 122922),
      (123184, 123197), (123566, 123566), (123628, 123631), (125136, 125142), (125252, 125259),
      (127995, 127999), (917505, 917505), (917536, 917631), (917760, 917999)]"

fun lookupRun :: "(nat \<times> nat \<times> nat \<times> nat) list \<Rightarrow> nat \<Rightarrow> nat" where
  "lookupRun [] c = c"
| "lookupRun ((lo, hi, step, target) # runs) c =
     (if lo \<le> c \<and> c \<le> hi \<and> (c - lo) mod step = 0 then target + (c - lo)
      else lookupRun runs c)"

fun inRanges :: "(nat \<times> nat) list \<Rightarrow> nat \<Rightarrow> bool" where
  "inRanges [] c = False"
| "inRanges ((lo, hi) # ranges) c = (lo \<le> c \<and> c \<le> hi \<or> inRanges ranges c)"

definition asciiLower :: "nat \<Rightarrow> nat" where
  "asciiLower c = (if 65 \<le> c \<and> c \<le> 90 then c + 32 else c)"

definition lowerCodePoint :: "nat \<Rightarrow> nat list" where
  "lowerCodePoint c =
     (if c < 128 then [asciiLower c]
      else if c = 304 then [105, 775]
      else [lookupRun lowerCaseRuns c])"

definition isCased :: "nat \<Rightarrow> bool" where
  "isCased c = inRanges casedRanges c"

definition isCaseIgnorable :: "nat \<Rightarrow> bool" where
  "isCaseIgnorable c = inRanges caseIgnorableRanges c"

text \<open>\<open>before\<close> holds the code points that precede, the nearest one first.\<close>

definition finalSigma :: "nat list \<Rightarrow> nat list \<Rightarrow> bool" where
  "finalSigma before after \<longleftrightarrow>
     (case dropWhile isCaseIgnorable before of [] \<Rightarrow> False | c # cs \<Rightarrow> isCased c) \<and>
     (case dropWhile isCaseIgnorable after of [] \<Rightarrow> True | c # cs \<Rightarrow> \<not> isCased c)"

fun lowerFrom :: "nat list \<Rightarrow> nat list \<Rightarrow> nat list" where
  "lowerFrom before [] = []"
| "lowerFrom before (c # rest) =
     (if c = 931 then [if finalSigma before rest then 962 else 963] else lowerCodePoint c)
       @ lowerFrom (c # before) rest"

fun codePoints :: "jsstring \<Rightarrow> nat list" where
  "codePoints [] = []"
| "codePoints [c] = [c]"
| "codePoints (h # l # rest) =
     (if 55296 \<le> h \<and> h \<le> 56319 \<and> 56320 \<le> l \<and> l \<le> 57343
      then (65536 + (h - 55296) * 1024 + (l - 56320)) # codePoints rest
      else h # codePoints (l # rest))"

definition codeUnits :: "nat \<Rightarrow> jsstring" where
  "codeUnits c =
     (if c < 65536 then [c]
      else [55296 + (c - 65536) div 1024, 56320 + (c - 65536) mod 1024])"

definition toLowerCase :: "jsstring \<Rightarrow> jsstring" where
  "toLowerCase s = concat (map codeUnits (lowerFrom [] (codePoints s)))"

text \<open>The character classes \<open>\s\<close> and \<open>\w\<close> of a JavaScript regular expression, and the
  range from U+4E00 to U+9FFF.\<close>

definition isSpace :: "nat \<Rightarrow> bool" where
  "isSpace c \<longleftrightarrow>
     (9 \<le> c \<and> c \<le> 13) \<or> c = 32 \<or> c = 160 \<or> c = 5760 \<or> (8192 \<le> c \<and> c \<le> 8202) \<or>
     c = 8232 \<or> c = 8233 \<or> c = 8239 \<or> c = 8287 \<or> c = 12288 \<or> c = 65279"

definition isWordChar :: "nat \<Rightarrow> bool" where
  "isWordChar c \<longleftrightarrow>
     (48 \<le> c \<and> c \<le> 57) \<or> (65 \<le> c \<and> c \<le> 90) \<or> c = 95 \<or> (97 \<le> c \<and> c \<le> 122)"

definition isCJK :: "nat \<Rightarrow> bool" where
  "isCJK c \<longleftrightarrow> 19968 \<le> c \<and> c \<le> 40959"

text \<open>
  \<open>s.split(/\s+/)\<close>: the pieces between the maximal runs of white space. A run at the
  start or at the end leaves an empty piece there, and the empty string splits into one
  empty piece. \<open>cur\<close> is the piece being read, reversed.
\<close>

function splitWs :: "jsstring \<Rightarrow> jsstring \<Rightarrow> jsstring list" where
  "splitWs cur [] = [rev cur]"
| "splitWs cur (c # cs) =
     (if isSpace c then rev cur # splitWs [] (dropWhile isSpace cs)
      else splitWs (c # cur) cs)"
  by pat_completeness auto
termination
  by (relation "measure (\<lambda>(cur, s). length s)")
     (auto simp: less_Suc_eq_le length_dropWhile_le)

definition split_ws :: "jsstring \<Rightarrow> jsstring list" where
  "split_ws s = splitWs [] s"

text \<open>\<open>new Set(xs)\<close>, as the list of its elements in insertion order.\<close>

definition newSet :: "'a list \<Rightarrow> 'a list" where
  "newSet xs = rev (remdups (rev xs))"

section \<open>Scorer (src/src/core/engine/scorer.js)\<close>

text \<open>
  \<open>parseFloat(p.toFixed(4))\<close>: the nearest multiple of 1/10000, the larger one on a tie.
\<close>

definition toFixed4 :: "real \<Rightarrow> real" where
  "toFixed4 p = of_int (round (p * 10000)) / 10000"

definition v5Formula :: "real \<Rightarrow> real \<Rightarrow> real \<Rightarrow> real" where
  "v5Formula input gamma barrier =
     (let normalizedInput = max 0 (min 1 input);
          exponent = - 2 * gamma * (normalizedInput - barrier);
          p = 1 / (1 + exp exponent)
      in toFixed4 p)"

definition normalizeText :: "jsstring \<Rightarrow> jsstring list" where
  "normalizeText t =
     filter (\<lambda>w. length w > 1)
       (split_ws (map (\<lambda>c. if isWordChar c \<or> isSpace c \<or> isCJK c then c else 32) (toLowerCase t)))"

definition calculateKeywordSimilarity :: "jsstring \<Rightarrow> jsstring \<Rightarrow> real" where
  "calculateKeywordSimilarity text1 text2 =
     (if text1 = [] \<or> text2 = [] then 0
      else let words1 = newSet (normalizeText text1);
               words2 = newSet (normalizeText text2)
           in if length words1 = 0 \<or> length words2 = 0 then 0
              else let intersection = newSet (filter (\<lambda>x. x \<in> set words2) words1);
                       union = newSet (words1 @ words2)
                   in real (length intersection) / real (length union))"

text \<open>\<open>now\<close> is the value of \<open>Date.now()\<close>; \<open>halfLife\<close> defaults to 7.\<close>

definition calculateTimeDecay :: "int \<Rightarrow> int option \<Rightarrow> real \<Rightarrow> real" where
  "calculateTimeDecay now lastUsed halfLife =
     (case lastUsed of
        None \<Rightarrow> 1
      | Some t \<Rightarrow>
          let daysPassed = real_of_int (now - t) / (1000 * 60 * 60 * 24)
          in (1 / 2) powr (daysPassed / halfLife))"

text \<open>\<open>x || d\<close> on numbers: \<open>d\<close> when \<open>x\<close> is missing or zero.\<close>

definition num_or :: "real option \<Rightarrow> real \<Rightarrow> real" where
  "num_or x d = (case x of None \<Rightarrow> d | Some v \<Rightarrow> if v = 0 then d else v)"

definition inputScore :: "int \<Rightarrow> jsstring \<Rightarrow> 'a V5Memory_scheme \<Rightarrow> real" where
  "inputScore now input memory =
     (let keywordScore = calculateKeywordSimilarity input (body_text (body memory));
          timeDecay = calculateTimeDecay now (lastUsedAt (lifecycle (meta memory))) 7;
          priorityScore = num_or (map_option recall_priority (dimensions (meta memory))) (1 / 2);
          platformWeight = (if platform (meta memory) = ''deepseek'' then 1 else 9 / 10)
      in keywordScore * (3 / 10) + priorityScore * (3 / 10) + timeDecay * (2 / 10)
         + platformWeight * (2 / 10))"

definition calculateRecallScore :: "int \<Rightarrow> jsstring \<Rightarrow> 'a V5Memory_scheme \<Rightarrow> real \<Rightarrow> real \<Rightarrow> real" where
  "calculateRecallScore now input memory gamma barrier =
     v5Formula (inputScore now input memory) gamma barrier"


section \<open>File store (class FileSystemStore, found in src/src/core/storage/hierarchical.js)\<close>

text \<open>
  The store is a directory with one JSON file per record, named \<open>${id}.json\<close>. It is
  modelled as the list of the records in the order in which \<open>readdirSync\<close> lists their
  files, which is the order of the file names compared byte by byte (the order of
  \<open>strcmp\<close>, in which Node lists a directory on the platforms that provide \<open>scandir\<close>).
  A file that exists is overwritten in place; a new file takes its place in that order.
\<close>

type_synonym store = "V5Memory list"

fun strcmpLess :: "string \<Rightarrow> string \<Rightarrow> bool" where
  "strcmpLess [] [] = False"
| "strcmpLess [] (y # ys) = True"
| "strcmpLess (x # xs) [] = False"
| "strcmpLess (x # xs) (y # ys) =
     ((of_char x :: nat) < of_char y \<or> (x = y \<and> strcmpLess xs ys))"

definition getFilePath :: "string \<Rightarrow> string" where
  "getFilePath i = i @ ''.json''"

text \<open>A filter object; \<open>None\<close> is a key that the caller did not give.\<close>

record filters =
  f_status :: "status option"
  f_platform :: "string option"
  f_namespace :: "string option"
  f_type :: "memory_type option"

definition noFilters :: filters where
  "noFilters = \<lparr>f_status = None, f_platform = None, f_namespace = None, f_type = None\<rparr>"

definition matchesFilters :: "'a V5Memory_scheme \<Rightarrow> filters \<Rightarrow> bool" where
  "matchesFilters memory fs \<longleftrightarrow>
     (case f_status fs of None \<Rightarrow> True | Some v \<Rightarrow> status (lifecycle (meta memory)) = v) \<and>
     (case f_platform fs of None \<Rightarrow> True | Some v \<Rightarrow> platform (meta memory) = v) \<and>
     (case f_namespace fs of None \<Rightarrow> True | Some v \<Rightarrow> namespace (meta memory) = v) \<and>
     (case f_type fs of None \<Rightarrow> True | Some v \<Rightarrow> body_type (body memory) = v)"

definition query :: "store \<Rightarrow> filters \<Rightarrow> V5Memory list" where
  "query st fs = filter (\<lambda>m. matchesFilters m fs) st"

text \<open>\<open>writeFileSync\<close> at the path of the record's id.\<close>

fun writeFile :: "store \<Rightarrow> V5Memory \<Rightarrow> store" where
  "writeFile [] memory = [memory]"
| "writeFile (m # ms) memory =
     (if meta_id (meta m) = meta_id (meta memory) then memory # ms
      else if strcmpLess (getFilePath (meta_id (meta memory))) (getFilePath (meta_id (meta m)))
      then memory # m # ms
      else m # writeFile ms memory)"

text \<open>A store whose records are listed in the order of their file names.\<close>

definition listedInOrder :: "store \<Rightarrow> bool" where
  "listedInOrder st \<longleftrightarrow>
     sorted_wrt (\<lambda>a b. strcmpLess (getFilePath (meta_id (meta a))) (getFilePath (meta_id (meta b)))) st"

text \<open>The decimal digits of a number, for the id \<open>mem_${Date.now()}\<close>.\<close>

fun decimal :: "nat \<Rightarrow> string" where
  "decimal n = (if n < 10 then [char_of (48 + n)] else decimal (n div 10) @ [char_of (48 + n mod 10)])"

definition store_add :: "store \<Rightarrow> V5Memory \<Rightarrow> int \<Rightarrow> string \<times> store" where
  "store_add st memory now =
     (let i = (if meta_id (meta memory) = [] then ''mem_'' @ decimal (nat now) else meta_id (meta memory));
          memory' = memory\<lparr>meta := (meta memory)\<lparr>meta_id := i\<rparr>\<rparr>
      in (i, writeFile st memory'))"

definition store_update :: "store \<Rightarrow> V5Memory \<Rightarrow> store" where
  "store_update st memory = writeFile st memory"

text \<open>The store's own \<open>textSimilarity\<close>: \<open>intersection.length / union.size\<close>.\<close>

definition textSimilarity :: "jsstring \<Rightarrow> jsstring \<Rightarrow> real" where
  "textSimilarity a b =
     (let setA = newSet (split_ws (toLowerCase a));
          setB = newSet (split_ws (toLowerCase b));
          intersection = filter (\<lambda>x. x \<in> set setB) setA;
          union = newSet (setA @ setB)
      in real (length intersection) / real (length union))"

definition findSimilar :: "store \<Rightarrow> V5Memory \<Rightarrow> V5Memory option" where
  "findSimilar st memory =
     (let all = query st \<lparr>f_status = Some Active, f_platform = Some (platform (meta memory)),
                           f_namespace = Some (namespace (meta memory)), f_type = None\<rparr>
      in find (\<lambda>m. textSimilarity (body_text (body memory)) (body_text (body m)) > 8 / 10) all)"

section \<open>Recall and budget allocation (src/src/core/engine/meta_engine.js)\<close>

text \<open>
  \<open>xs.slice(0, n)\<close> for an integer \<open>n\<close>: a negative \<open>n\<close> counts from the end of the list.
\<close>

definition slice0 :: "'a list \<Rightarrow> int \<Rightarrow> 'a list" where
  "slice0 xs n = (if n < 0 then take (nat (int (length xs) + n)) xs else take (nat n) xs)"

definition allocateBudget :: "'a V5Memory_scheme list \<Rightarrow> budget \<Rightarrow> 'a V5Memory_scheme list" where
  "allocateBudget scored bud =
     (let r_persona = slice0 (filter (\<lambda>m. body_type (body m) = Persona) scored) (persona bud);
          r_core = slice0 (filter (\<lambda>m. body_type (body m) = Core) scored) (core bud);
          r_episodic = slice0 (filter (\<lambda>m. body_type (body m) = Episodic) scored) (episodic bud)
      in r_persona @ r_core @ r_episodic)"

text \<open>
  \<open>xs.sort((a, b) => b.recallScore - a.recallScore)\<close>: a stable sort by descending score.
\<close>

definition sortByScore :: "V5MemoryWithScore list \<Rightarrow> V5MemoryWithScore list" where
  "sortByScore xs = sort_key (\<lambda>m. - recallScore m) xs"

definition withScore :: "V5Memory \<Rightarrow> real \<Rightarrow> V5MemoryWithScore" where
  "withScore m s = V5Memory.extend m \<lparr>recallScore = s\<rparr>"

text \<open>The two steps of \<open>recall\<close> after the scoring: the threshold filter with the sort, and the budget.\<close>

definition recallSelect :: "V5EngineConfig \<Rightarrow> V5MemoryWithScore list \<Rightarrow> V5MemoryWithScore list" where
  "recallSelect cfg scored =
     (let filtered = sortByScore (filter (\<lambda>m. recallScore m \<ge> recallThreshold cfg) scored)
      in allocateBudget filtered (cfg_budget cfg))"

definition recall :: "V5EngineConfig \<Rightarrow> store \<Rightarrow> int \<Rightarrow> jsstring \<Rightarrow> V5MemoryWithScore list" where
  "recall cfg st now input =
     (let memories = query st \<lparr>f_status = Some Active, f_platform = Some (cfg_platform cfg),
                                f_namespace = Some (cfg_namespace cfg), f_type = None\<rparr>;
          scored = map (\<lambda>m. withScore m
                     (calculateRecallScore now input m (cfg_gamma cfg) (cfg_barrier cfg))) memories
      in recallSelect cfg scored)"

text \<open>
  \<open>cropMemories\<close>: \<open>used\<close> has the keys persona, core and episodic only, so \<open>used[type]\<close> is
  undefined for every other type and the comparison \<open>used[type] < ...\<close> is false. (For
  the name of a property that every object inherits, such as \<open>constructor\<close>, both sides
  of the comparison are the same inherited object, and the comparison is false as
  well.) \<open>budget[type] || 6\<close> reads a budget of zero as 6. A record whose \<open>body.type\<close> is
  missing or empty is counted as episodic and pushed as it is.
\<close>

record used =
  u_persona :: nat
  u_core :: nat
  u_episodic :: nat

definition typeOrEpisodic :: "memory_type \<Rightarrow> memory_type" where
  "typeOrEpisodic t = (if t = NoType then Episodic else t)"

fun usedOf :: "used \<Rightarrow> memory_type \<Rightarrow> nat option" where
  "usedOf u Persona = Some (u_persona u)"
| "usedOf u Core = Some (u_core u)"
| "usedOf u Episodic = Some (u_episodic u)"
| "usedOf u _ = None"

fun budgetOf :: "budget \<Rightarrow> memory_type \<Rightarrow> int" where
  "budgetOf bud Persona = persona bud"
| "budgetOf bud Core = core bud"
| "budgetOf bud Episodic = episodic bud"
| "budgetOf bud _ = 0"

fun usedInc :: "used \<Rightarrow> memory_type \<Rightarrow> used" where
  "usedInc u Persona = u\<lparr>u_persona := u_persona u + 1\<rparr>"
| "usedInc u Core = u\<lparr>u_core := u_core u + 1\<rparr>"
| "usedInc u Episodic = u\<lparr>u_episodic := u_episodic u + 1\<rparr>"
| "usedInc u _ = u"

fun cropLoop :: "budget \<Rightarrow> used \<Rightarrow> 'a V5Memory_scheme list \<Rightarrow> 'a V5Memory_scheme list
    \<Rightarrow> 'a V5Memory_scheme list" where
  "cropLoop bud u result [] = result"
| "cropLoop bud u result (mem # rest) =
     (let type = typeOrEpisodic (body_type (body mem))
      in case usedOf u type of
           None \<Rightarrow> cropLoop bud u result rest
         | Some n \<Rightarrow>
             if int n < (if budgetOf bud type = 0 then 6 else budgetOf bud type)
             then cropLoop bud (usedInc u type) (result @ [mem]) rest
             else cropLoop bud u result rest)"

definition cropMemories :: "V5EngineConfig \<Rightarrow> 'a V5Memory_scheme list \<Rightarrow> 'a V5Memory_scheme list" where
  "cropMemories cfg sortedMemories =
     cropLoop (cfg_budget cfg) \<lparr>u_persona = 0, u_core = 0, u_episodic = 0\<rparr> [] sortedMemories"

section \<open>Retriever (retrieveMemories, found in src/src/core/engine/injector.js)\<close>










section \<open>Write path, conflict handling and cleanup (src/src/core/engine/meta_engine.js)\<close>

text \<open>
  Regular expressions of the engine. \<open>/word/i\<close> finds the word at some position,
  comparing the code units after \<open>Canonicalize\<close>. Without the flag \<open>u\<close>, \<open>Canonicalize\<close>
  maps a code unit to its upper case but never maps a code unit above 127 to one below
  128; the patterns of the engine are ASCII words, so only the mapping of the ASCII
  letters is needed here. \<open>\d\<close> is an ASCII digit.
\<close>

definition isDigit :: "nat \<Rightarrow> bool" where
  "isDigit c \<longleftrightarrow> 48 \<le> c \<and> c \<le> 57"

definition canonicalize :: "nat \<Rightarrow> nat" where
  "canonicalize c = (if 97 \<le> c \<and> c \<le> 122 then c - 32 else c)"

fun startsWithCI :: "jsstring \<Rightarrow> jsstring \<Rightarrow> bool" where
  "startsWithCI [] s = True"
| "startsWithCI (p # ps) [] = False"
| "startsWithCI (p # ps) (c # cs) = (canonicalize p = canonicalize c \<and> startsWithCI ps cs)"

fun searchCI :: "jsstring \<Rightarrow> jsstring \<Rightarrow> bool" where
  "searchCI p [] = startsWithCI p []"
| "searchCI p (c # cs) = (startsWithCI p (c # cs) \<or> searchCI p cs)"

text \<open>\<open>/\d{n,}/\<close>: a run of at least \<open>n\<close> digits somewhere in the string.\<close>

fun hasDigitRun :: "nat \<Rightarrow> jsstring \<Rightarrow> bool" where
  "hasDigitRun n [] = (n = 0)"
| "hasDigitRun n (c # cs) =
     (n \<le> length (takeWhile isDigit (c # cs)) \<or> hasDigitRun n cs)"

text \<open>\<open>/api[_-]?key/i\<close>\<close>

definition apiKeyAt :: "jsstring \<Rightarrow> bool" where
  "apiKeyAt s \<longleftrightarrow> startsWithCI (js ''apikey'') s \<or> startsWithCI (js ''api_key'') s
     \<or> startsWithCI (js ''api-key'') s"

definition searchApiKey :: "jsstring \<Rightarrow> bool" where
  "searchApiKey s \<longleftrightarrow> searchCI (js ''apikey'') s \<or> searchCI (js ''api_key'') s
     \<or> searchCI (js ''api-key'') s"

text \<open>
  The default \<open>sensitivityPatterns\<close>: \<open>/password/i\<close>, \<open>/api[_-]?key/i\<close>, \<open>/secret/i\<close>,
  \<open>/token/i\<close>, \<open>/otp/i\<close>, \<open>/\d{6,}/\<close>, \<open>/bank/i\<close>.
\<close>

definition defaultSensitivityPatterns :: "(jsstring \<Rightarrow> bool) list" where
  "defaultSensitivityPatterns =
     [searchCI (js ''password''), searchApiKey, searchCI (js ''secret''), searchCI (js ''token''),
      searchCI (js ''otp''), hasDigitRun 6, searchCI (js ''bank'')]"

text \<open>\<open>text.replace(/(\d{4,})/g, '****')\<close>\<close>

function maskDigits :: "jsstring \<Rightarrow> jsstring" where
  "maskDigits [] = []"
| "maskDigits (c # cs) =
     (if 4 \<le> length (takeWhile isDigit (c # cs))
      then js ''****'' @ maskDigits (dropWhile isDigit cs)
      else c # maskDigits cs)"
  by pat_completeness auto
termination
  by (relation "measure length") (auto simp: less_Suc_eq_le length_dropWhile_le)

text \<open>
  \<open>text.replace(/(password|api[_-]?key|secret|token)[^\s]*/gi, '****')\<close>: a match runs
  from the word to the next white space.
\<close>

function maskWords :: "jsstring \<Rightarrow> jsstring" where
  "maskWords [] = []"
| "maskWords (c # cs) =
     (if startsWithCI (js ''password'') (c # cs) \<or> apiKeyAt (c # cs)
         \<or> startsWithCI (js ''secret'') (c # cs) \<or> startsWithCI (js ''token'') (c # cs)
      then js ''****'' @ maskWords (dropWhile (\<lambda>x. \<not> isSpace x) cs)
      else c # maskWords cs)"
  by pat_completeness auto
termination
  by (relation "measure length") (auto simp: less_Suc_eq_le length_dropWhile_le)

definition maskSensitive :: "jsstring \<Rightarrow> jsstring" where
  "maskSensitive t = maskWords (maskDigits t)"

definition processSensitive :: "V5EngineConfig \<Rightarrow> V5Memory \<Rightarrow> V5Memory" where
  "processSensitive cfg memory =
     (if \<not> autoMaskSensitive cfg then memory
      else let t = body_text (body memory);
               sens = (if \<exists>pattern \<in> set (sensitivityPatterns cfg). pattern t
                       then HighlySensitive else Normal)
           in if sens = HighlySensitive \<and> \<not> masked (security (meta memory))
              then memory\<lparr>body := (body memory)\<lparr>body_text := maskSensitive t\<rparr>,
                          meta := (meta memory)\<lparr>security :=
                            (security (meta memory))\<lparr>sensitivity := sens, masked := True\<rparr>\<rparr>\<rparr>
              else memory\<lparr>meta := (meta memory)\<lparr>security :=
                            (security (meta memory))\<lparr>sensitivity := sens\<rparr>\<rparr>\<rparr>)"

text \<open>
  \<open>calculateWriteScore(memory, config)\<close> of the scorer: \<open>platformWeight\<close> and
  \<open>freshness\<close> are not fields of the dimensions, so they take their defaults 1.0 and 0.8.
\<close>

definition calculateWriteScore :: "V5Memory \<Rightarrow> real" where
  "calculateWriteScore memory =
     (let conf = num_or (map_option confidence (dimensions (meta memory))) (8 / 10);
          imp = num_or (map_option importance (dimensions (meta memory))) (7 / 10);
          platformWeight = 1;
          freshness = 8 / 10
      in conf * (4 / 10) + imp * (3 / 10) + platformWeight * (2 / 10) + freshness * (1 / 10))"

text \<open>
  One round of the loop of \<open>write\<close>. The assignment \<open>existing.meta.status = 'superseded'\<close>
  sets the property \<open>meta.status\<close>; \<open>meta.lifecycle.status\<close> is not assigned.
\<close>

definition writeOne :: "V5EngineConfig \<Rightarrow> int \<Rightarrow> V5Memory list \<times> store \<Rightarrow> V5Memory
    \<Rightarrow> V5Memory list \<times> store" where
  "writeOne cfg now acc mem =
     (let (written, st) = acc;
          writeScore = calculateWriteScore mem
      in if writeScore < writeThreshold cfg then (written, st)
         else let processed = processSensitive cfg mem
              in case findSimilar st processed of
                   None \<Rightarrow>
                     let (i, st') = store_add st processed now
                     in (written @ [processed\<lparr>meta := (meta processed)\<lparr>meta_id := i\<rparr>\<rparr>], st')
                 | Some existing \<Rightarrow>
                     let processed' = processed\<lparr>meta := (meta processed)\<lparr>relations :=
                           (relations (meta processed))\<lparr>supersedes := Some (meta_id (meta existing))\<rparr>\<rparr>\<rparr>;
                         existing' = existing\<lparr>meta := (meta existing)\<lparr>meta_status := Some Superseded\<rparr>\<rparr>;
                         st1 = store_update st existing';
                         (i, st') = store_add st1 processed' now
                     in (written @ [processed'\<lparr>meta := (meta processed')\<lparr>meta_id := i\<rparr>\<rparr>], st'))"

text \<open>\<open>V5MetaEngine.write\<close>; it returns the written records and the store.\<close>

definition engine_write :: "V5EngineConfig \<Rightarrow> store \<Rightarrow> V5Memory list \<Rightarrow> int
    \<Rightarrow> V5Memory list \<times> store" where
  "engine_write cfg st memories now = foldl (writeOne cfg now) ([], st) memories"

text \<open>
  A JavaScript number that may be \<open>NaN\<close>. The engine's own \<open>textSimilarity\<close> divides
  \<open>intersection.size\<close>, which is undefined for the array that \<open>filter\<close> returns, by
  \<open>union.size\<close>: the quotient is \<open>NaN\<close>, and every comparison with \<open>NaN\<close> is false.
\<close>

datatype jsnum = NaN | Num real

fun js_gt :: "jsnum \<Rightarrow> real \<Rightarrow> bool" where
  "js_gt NaN x = False"
| "js_gt (Num v) x = (v > x)"

definition engine_textSimilarity :: "jsstring \<Rightarrow> jsstring \<Rightarrow> jsnum" where
  "engine_textSimilarity a b =
     (if a = [] \<or> b = [] then Num 0
      else let setA = newSet (split_ws (toLowerCase a));
               setB = newSet (split_ws (toLowerCase b));
               union = newSet (setA @ setB)
           in if length union > 0 then NaN else Num 0)"

text \<open>
  \<open>calculateMatchScore\<close>, the score of \<open>retrieveAndInject\<close>. Its keyword score has the
  same quotient \<open>intersection.size / union.size\<close> of an array's \<open>size\<close>, and a sum or a
  product with \<open>NaN\<close> is \<open>NaN\<close>. \<open>typeScores\<close> is the table
  \<open>{pinned: 1, persona: 0.85, core: 0.7, episodic: 0.5}\<close>.
\<close>

fun js_plus :: "jsnum \<Rightarrow> jsnum \<Rightarrow> jsnum" where
  "js_plus (Num a) (Num b) = Num (a + b)"
| "js_plus a b = NaN"

fun js_times :: "jsnum \<Rightarrow> jsnum \<Rightarrow> jsnum" where
  "js_times (Num a) (Num b) = Num (a * b)"
| "js_times a b = NaN"

fun typeScores :: "memory_type \<Rightarrow> real option" where
  "typeScores Pinned = Some 1"
| "typeScores Persona = Some (85 / 100)"
| "typeScores Core = Some (7 / 10)"
| "typeScores Episodic = Some (1 / 2)"
| "typeScores t = None"

definition calculateMatchScore :: "int \<Rightarrow> jsstring \<Rightarrow> 'a V5Memory_scheme \<Rightarrow> jsnum" where
  "calculateMatchScore now input memory =
     (let t = body_text (body memory);
          inputWords = newSet (split_ws (toLowerCase input));
          memoryWords = newSet (split_ws (toLowerCase t));
          union = newSet (inputWords @ memoryWords);
          keywordScore = (if length union > 0 then NaN else Num 0);
          priorityScore = num_or (map_option recall_priority (dimensions (meta memory))) (1 / 2);
          daysPassed = (case lastUsedAt (lifecycle (meta memory)) of
                          None \<Rightarrow> 0
                        | Some l \<Rightarrow> real_of_int (now - l) / (1000 * 60 * 60 * 24));
          timeDecay = (1 / 2) powr (daysPassed / 7);
          platformWeight = 1;
          typeScore = num_or (typeScores (body_type (body memory))) (1 / 2)
      in js_plus (js_plus (js_plus (js_plus
           (js_times keywordScore (Num (35 / 100)))
           (Num (priorityScore * (25 / 100))))
           (Num (timeDecay * (2 / 10))))
           (Num (platformWeight * (1 / 10))))
           (Num (typeScore * (1 / 10))))"

text \<open>
  \<open>handleConflict\<close> returns whether it found a conflict, with the new record and the
  store as it leaves them.
\<close>

fun handleConflictLoop :: "V5Memory \<Rightarrow> store \<Rightarrow> V5Memory list \<Rightarrow> bool \<times> V5Memory \<times> store" where
  "handleConflictLoop memory st [] = (False, memory, st)"
| "handleConflictLoop memory st (existing # rest) =
     (let similarity = engine_textSimilarity (body_text (body memory)) (body_text (body existing))
      in if js_gt similarity (8 / 10)
         then (True,
               memory\<lparr>meta := (meta memory)\<lparr>relations :=
                 (relations (meta memory))\<lparr>supersedes := Some (meta_id (meta existing))\<rparr>\<rparr>\<rparr>,
               store_update st (existing\<lparr>meta := (meta existing)\<lparr>meta_status := Some Superseded\<rparr>\<rparr>))
         else handleConflictLoop memory st rest)"

definition handleConflict :: "store \<Rightarrow> V5Memory \<Rightarrow> bool \<times> V5Memory \<times> store" where
  "handleConflict st memory =
     handleConflictLoop memory st
       (query st \<lparr>f_status = Some Active, f_platform = Some (platform (meta memory)),
                  f_namespace = Some (namespace (meta memory)), f_type = None\<rparr>)"

text \<open>
  \<open>cleanup\<close>: the assignment \<open>mem.meta.status = 'expired'\<close> sets the property \<open>meta.status\<close>;
  the check before it reads \<open>meta.lifecycle.status\<close>.
\<close>

definition cleanupOne :: "int \<Rightarrow> nat \<times> store \<Rightarrow> V5Memory \<Rightarrow> nat \<times> store" where
  "cleanupOne now acc mem =
     (let (cleaned, st) = acc
      in if status (lifecycle (meta mem)) = Deleted then (cleaned, st)
         else case expiresAt (lifecycle (meta mem)) of
                None \<Rightarrow> (cleaned, st)
              | Some e \<Rightarrow>
                  if e < now
                  then (cleaned + 1,
                        store_update st (mem\<lparr>meta := (meta mem)\<lparr>meta_status := Some Expired\<rparr>\<rparr>))
                  else (cleaned, st))"

definition cleanup :: "V5EngineConfig \<Rightarrow> store \<Rightarrow> int \<Rightarrow> nat \<times> store" where
  "cleanup cfg st now =
     (let all = query st \<lparr>f_status = None, f_platform = Some (cfg_platform cfg),
                           f_namespace = Some (cfg_namespace cfg), f_type = None\<rparr>
      in foldl (cleanupOne now) (0, st) all)"

text \<open>The values of \<open>meta.lifecycle.status\<close> that occur in a list of records.\<close>

definition lifecycleStatuses :: "V5Memory list \<Rightarrow> status set" where
  "lifecycleStatuses ms = (\<lambda>m. status (lifecycle (meta m))) ` set ms"

section \<open>Extractor (src/src/core/engine/extractor.js)\<close>

text \<open>A candidate of the extraction and the context of the call.\<close>

record candidate =
  cand_type :: memory_type
  cand_text :: jsstring
  cand_dimensions :: "V5Dimensions option"
  rawContent :: "jsstring option"

record callContext =
  ctx_platform :: "string option"
  ctx_namespace :: "string option"
  conversationId :: "string option"
  turnId :: "string option"

text \<open>\<open>s.includes(w)\<close>, which is also what a regular expression of literal words tests.\<close>

fun startsWith :: "jsstring \<Rightarrow> jsstring \<Rightarrow> bool" where
  "startsWith [] s = True"
| "startsWith (p # ps) [] = False"
| "startsWith (p # ps) (c # cs) = (p = c \<and> startsWith ps cs)"

fun js_includes :: "jsstring \<Rightarrow> jsstring \<Rightarrow> bool" where
  "js_includes [] w = startsWith w []"
| "js_includes (c # cs) w = (startsWith w (c # cs) \<or> js_includes cs w)"

text \<open>
  The table \<open>domainTags\<close>: each pattern is an alternative of literal words, given here by
  their UTF-16 code units, with the tag it stands for. The words of the second
  pattern are the capital letters \<open>UI\<close> and \<open>UX\<close>.
\<close>

definition domainTags :: "(jsstring list \<times> jsstring) list" where
  "domainTags =
     [([[25216, 26415], [32534, 31243], [20195, 30721], [24320, 21457]], js ''tech''),
      ([[35774, 35745], [85, 73], [85, 88], [35270, 35273]], js ''design''),
      ([[20889, 20316], [25991, 31456], [20869, 23481]], js ''writing''),
      ([[21830, 21153], [21830, 19994], [33829, 38144]], js ''business''),
      ([[20010, 20154], [29983, 27963], [20064, 24815]], js ''personal'')]"

definition inferTags :: "jsstring \<Rightarrow> jsstring list" where
  "inferTags t =
     (let textLower = toLowerCase t;
          tags = (if \<exists>c \<in> set t. 97 \<le> c \<and> c \<le> 122 then [js ''english''] else [])
               @ (if \<exists>c \<in> set t. isCJK c then [js ''chinese''] else [])
               @ map snd (filter (\<lambda>(pattern, tag). \<exists>w \<in> set pattern. js_includes textLower w) domainTags)
      in if tags = [] then [js ''general''] else tags)"

text \<open>
  A JavaScript exception. \<open>callNumber n\<close> is the call \<open>n()\<close> of a number, which throws a
  \<open>TypeError\<close>: \<open>createMemoryEntry\<close> computes \<open>expiresAt\<close> from \<open>Date.now()()\<close>.
\<close>

datatype js_error = TypeError string

definition callNumber :: "int \<Rightarrow> js_error + int" where
  "callNumber n = Inl (TypeError ''Date.now(...) is not a function'')"

definition defaultDimensions :: V5Dimensions where
  "defaultDimensions = \<lparr>confidence = 7 / 10, importance = 6 / 10, time_decay = 8 / 10,
     recall_priority = 7 / 10, dim_compressed = False, dim_compression_level = None\<rparr>"

text \<open>
  \<open>now\<close> is the clock; \<open>rnd\<close> is the random suffix \<open>Math.random().toString(36).slice(2, 9)\<close>
  of the id. The fields of the object literal are computed in the order of the source,
  so the id and the tags are computed before \<open>expiresAt\<close>.
\<close>

definition createMemoryEntry :: "candidate \<Rightarrow> callContext \<Rightarrow> int \<Rightarrow> string \<Rightarrow> js_error + V5Memory" where
  "createMemoryEntry cand ctx now rnd =
     (let i = ''mem_'' @ decimal (nat now) @ ''_'' @ rnd;
          p = (case ctx_platform ctx of None \<Rightarrow> ''unknown'' | Some v \<Rightarrow> if v = [] then ''unknown'' else v);
          n = (case ctx_namespace ctx of None \<Rightarrow> ''default'' | Some v \<Rightarrow> if v = [] then ''default'' else v);
          tgs = inferTags (cand_text cand);
          dims = (case cand_dimensions cand of None \<Rightarrow> defaultDimensions | Some d \<Rightarrow> d)
      in case callNumber now of
           Inl e \<Rightarrow> Inl e
         | Inr t \<Rightarrow>
             Inr \<lparr>meta = \<lparr>meta_id = i, platform = p, namespace = n, tags = tgs,
                    dimensions = Some dims,
                    relations = \<lparr>supersedes = None, related_to = [],
                      conversation_id = conversationId ctx, turn_id = turnId ctx\<rparr>,
                    lifecycle = \<lparr>createdAt = now, updatedAt = now, lastUsedAt = Some now,
                      expiresAt = Some (t + 30 * 24 * 60 * 60 * 1000), ttl = 30 * 24 * 60 * 60,
                      status = Active\<rparr>,
                    security = \<lparr>sensitivity = Normal, masked = False, origin = Auto\<rparr>,
                    meta_status = None, storage_tier = None, last_migrated = None\<rparr>,
                  body = \<lparr>body_type = typeOrEpisodic (cand_type cand), body_text = cand_text cand,
                    raw_content = (case rawContent cand of None \<Rightarrow> [] | Some r \<Rightarrow> r),
                    original_text = None, compression_level = None, body_keywords = None,
                    compressed = None\<rparr>,
                  usageCount = 0\<rparr>)"

section \<open>Compressor (src/src/core/compression/compressor.js)\<close>

text \<open>
  The compression levels are the numbers \<open>NONE = 0\<close>, \<open>LIGHT = 1\<close>, \<open>MEDIUM = 2\<close>,
  \<open>HEAVY = 3\<close> and \<open>SUMMARY = 4\<close>. A level argument of \<open>None\<close> is \<open>null\<close>.

  The methods that build the shortened text (the keyword extractor, the choice of the
  key sentences and the four summarisers) are parameters of the model: what is proved
  below holds whatever text they return.
\<close>

record summarisers =
  kw_extract :: "jsstring \<Rightarrow> nat \<Rightarrow> jsstring list"
  extractKeySentences :: "jsstring \<Rightarrow> nat \<Rightarrow> jsstring list"
  compressLight :: "jsstring \<Rightarrow> jsstring list \<Rightarrow> jsstring"
  compressMedium :: "jsstring \<Rightarrow> jsstring list \<Rightarrow> jsstring list \<Rightarrow> jsstring"
  compressHeavy :: "jsstring \<Rightarrow> jsstring list \<Rightarrow> jsstring list \<Rightarrow> jsstring"
  generateSummary :: "jsstring \<Rightarrow> jsstring list \<Rightarrow> jsstring"

fun typeWeight :: "memory_type \<Rightarrow> real" where
  "typeWeight Pinned = 1"
| "typeWeight Persona = 8 / 10"
| "typeWeight Core = 6 / 10"
| "typeWeight Episodic = 4 / 10"
| "typeWeight _ = 3 / 10"

definition evaluateImportance :: "int \<Rightarrow> V5Memory \<Rightarrow> real" where
  "evaluateImportance now memory =
     (let lastUsed = (case lastUsedAt (lifecycle (meta memory)) of None \<Rightarrow> 0 | Some t \<Rightarrow> t);
          daysSinceUse = real_of_int (now - lastUsed) / (1000 * 60 * 60 * 24);
          score1 = min (real (usageCount memory) / 10) (4 / 10);
          score2 = score1 + typeWeight (body_type (body memory));
          timeDecay = (1 / 2) powr (daysSinceUse / 30);
          score3 = score2 + timeDecay * (3 / 10);
          score4 = (if sensitivity (security (meta memory)) = HighlySensitive
                    then score3 * (7 / 10) else score3)
      in min score4 1)"

definition determineCompressionLevel :: "int \<Rightarrow> V5Memory \<Rightarrow> nat" where
  "determineCompressionLevel now memory =
     (let imp = evaluateImportance now memory
      in if imp > 7 / 10 then 0
         else if imp > 5 / 10 then 1
         else if imp > 3 / 10 then 2
         else if imp > 15 / 100 then 3
         else 4)"

text \<open>\<open>level || this.determineCompressionLevel(memory)\<close>: a level of 0 is falsy.\<close>

definition effectiveLevel :: "int \<Rightarrow> V5Memory \<Rightarrow> nat option \<Rightarrow> nat" where
  "effectiveLevel now memory level =
     (case level of
        None \<Rightarrow> determineCompressionLevel now memory
      | Some l \<Rightarrow> if l = 0 then determineCompressionLevel now memory else l)"

text \<open>
  The new dimensions \<open>{...memory.meta?.dimensions, importance, compressed, compression_level}\<close>.
  Without dimensions the four scores other than the importance are undefined in the
  new object; they are 0 here, which every reader treats like a missing value
  (\<open>x || default\<close>).
\<close>

definition compressedDimensions :: "V5Dimensions option \<Rightarrow> real \<Rightarrow> nat \<Rightarrow> V5Dimensions" where
  "compressedDimensions dims imp lvl =
     (case dims of
        None \<Rightarrow> \<lparr>confidence = 0, importance = imp, time_decay = 0, recall_priority = 0,
                  dim_compressed = True, dim_compression_level = Some lvl\<rparr>
      | Some d \<Rightarrow> d\<lparr>importance := imp, dim_compressed := True, dim_compression_level := Some lvl\<rparr>)"

definition compress :: "summarisers \<Rightarrow> int \<Rightarrow> V5Memory \<Rightarrow> nat option \<Rightarrow> V5Memory" where
  "compress ops now memory level =
     (let t = body_text (body memory)
      in if t = [] then memory
         else let compressionLevel = effectiveLevel now memory level
              in if compressionLevel = 0 then memory
                 else let kws = kw_extract ops t 5;
                          keySentences = extractKeySentences ops t compressionLevel;
                          compressedText =
                            (if compressionLevel = 1 then compressLight ops t kws
                             else if compressionLevel = 2 then compressMedium ops t kws keySentences
                             else if compressionLevel = 3 then compressHeavy ops t kws keySentences
                             else if compressionLevel = 4 then generateSummary ops t kws
                             else t)
                      in memory\<lparr>body := (body memory)\<lparr>body_text := compressedText,
                                    original_text := Some t,
                                    compression_level := Some compressionLevel,
                                    body_keywords := Some kws\<rparr>,
                                  meta := (meta memory)\<lparr>dimensions :=
                                    Some (compressedDimensions (dimensions (meta memory))
                                      (evaluateImportance now memory) compressionLevel)\<rparr>\<rparr>)"

text \<open>\<open>compress\<close> returns its argument itself, not a new object, in these cases.\<close>

definition compressReturnsArgument :: "int \<Rightarrow> V5Memory \<Rightarrow> nat option \<Rightarrow> bool" where
  "compressReturnsArgument now memory level \<longleftrightarrow>
     body_text (body memory) = [] \<or> effectiveLevel now memory level = 0"

text \<open>\<open>!memory.body?.original_text\<close>: a missing or empty original text.\<close>

definition decompress :: "V5Memory \<Rightarrow> V5Memory" where
  "decompress memory =
     (case original_text (body memory) of
        None \<Rightarrow> memory
      | Some t \<Rightarrow>
          if t = [] then memory
          else memory\<lparr>body := (body memory)\<lparr>body_text := t, compressed := Some False\<rparr>\<rparr>)"

section \<open>Tiered storage (class HierarchicalStorage, src/src/core/storage/hierarchical.js)\<close>

text \<open>
  The hot cache is a JavaScript \<open>Map\<close> from ids to record objects: a list of pairs in
  insertion order. The warm and the cold store are file stores, which hold copies.
\<close>

fun mapSet :: "('k \<times> 'v) list \<Rightarrow> 'k \<Rightarrow> 'v \<Rightarrow> ('k \<times> 'v) list" where
  "mapSet [] k v = [(k, v)]"
| "mapSet ((k', v') # kvs) k v = (if k' = k then (k, v) # kvs else (k', v') # mapSet kvs k v)"

definition mapGet :: "('k \<times> 'v) list \<Rightarrow> 'k \<Rightarrow> 'v option" where
  "mapGet kvs k = map_of kvs k"

definition mapDelete :: "('k \<times> 'v) list \<Rightarrow> 'k \<Rightarrow> ('k \<times> 'v) list" where
  "mapDelete kvs k = filter (\<lambda>(k', v). k' \<noteq> k) kvs"

definition store_get :: "store \<Rightarrow> string \<Rightarrow> V5Memory option" where
  "store_get st i = find (\<lambda>m. meta_id (meta m) = i) st"

definition store_delete :: "store \<Rightarrow> string \<Rightarrow> store" where
  "store_delete st i = filter (\<lambda>m. meta_id (meta m) \<noteq> i) st"

record hstorage =
  hotCache :: "(string \<times> V5Memory) list"
  warmStore :: store
  coldStore :: store
  autoCompress :: bool

definition emptyStorage :: hstorage where
  "emptyStorage = \<lparr>hotCache = [], warmStore = [], coldStore = [], autoCompress = True\<rparr>"

definition days :: "int \<Rightarrow> int" where
  "days n = n * 24 * 60 * 60 * 1000"

text \<open>\<open>determineTier\<close> with the default thresholds of 7 and 30 days.\<close>

definition determineTier :: "int \<Rightarrow> V5Memory \<Rightarrow> tier" where
  "determineTier now memory =
     (let lastUsed = (case lastUsedAt (lifecycle (meta memory)) of None \<Rightarrow> now | Some t \<Rightarrow> t);
          age = now - lastUsed
      in if age < days 7 then Hot else if age < days 30 then Warm else Cold)"

text \<open>
  \<open>levels[tier] || COMPRESSION_LEVELS.MEDIUM\<close>: the level \<open>NONE = 0\<close> of the hot tier is
  falsy, so the hot tier gets \<open>MEDIUM\<close> as well.
\<close>

fun getCompressionLevel :: "tier \<Rightarrow> nat" where
  "getCompressionLevel Hot = 2"
| "getCompressionLevel Warm = 2"
| "getCompressionLevel Cold = 4"

text \<open>
  \<open>storeToTier\<close> assigns \<open>storage_tier\<close> and \<open>last_migrated\<close> on the object that
  \<open>compress\<close> returned. It returns that object, whether it is the argument itself
  (then the assignments are visible wherever the argument is referenced), and the
  storage.
\<close>

definition storeToTier ::
    "summarisers \<Rightarrow> hstorage \<Rightarrow> int \<Rightarrow> V5Memory \<Rightarrow> tier \<Rightarrow> V5Memory \<times> bool \<times> hstorage" where
  "storeToTier ops hs now memory t =
     (let lvl = Some (getCompressionLevel t);
          processed0 = (if autoCompress hs then compress ops now memory lvl else memory);
          same = (\<not> autoCompress hs \<or> compressReturnsArgument now memory lvl);
          processed = processed0\<lparr>meta := (meta processed0)\<lparr>storage_tier := Some t,
                        last_migrated := Some now\<rparr>\<rparr>
      in case t of
           Hot \<Rightarrow> (processed, same,
                   hs\<lparr>hotCache := mapSet (hotCache hs) (meta_id (meta processed)) processed\<rparr>)
         | Warm \<Rightarrow>
             let (i, st') = store_add (warmStore hs) processed now
             in (processed\<lparr>meta := (meta processed)\<lparr>meta_id := i\<rparr>\<rparr>, same, hs\<lparr>warmStore := st'\<rparr>)
         | Cold \<Rightarrow>
             let (i, st') = store_add (coldStore hs) processed now
             in (processed\<lparr>meta := (meta processed)\<lparr>meta_id := i\<rparr>\<rparr>, same, hs\<lparr>coldStore := st'\<rparr>))"

definition hs_add :: "summarisers \<Rightarrow> hstorage \<Rightarrow> int \<Rightarrow> V5Memory \<Rightarrow> V5Memory \<times> hstorage" where
  "hs_add ops hs now memory =
     (let t = determineTier now memory;
          (stored, same, hs') = storeToTier ops hs now memory t
      in (stored, hs'\<lparr>hotCache := mapSet (hotCache hs') (meta_id (meta stored)) stored\<rparr>))"

text \<open>
  \<open>migrateToTier\<close> reads the record from the hot cache and returns when the cache does
  not hold the id. It returns the object it read, as the assignments of \<open>storeToTier\<close>
  leave it, and the storage. An object that stays in the cache (its current tier is
  not hot) shows there the assignments that were made on it.
\<close>

definition migrateToTier ::
    "summarisers \<Rightarrow> hstorage \<Rightarrow> int \<Rightarrow> string \<Rightarrow> tier \<Rightarrow> V5Memory option \<times> hstorage" where
  "migrateToTier ops hs now i targetTier =
     (case mapGet (hotCache hs) i of
        None \<Rightarrow> (None, hs)
      | Some currentMem \<Rightarrow>
          let currentTier = (case storage_tier (meta currentMem) of None \<Rightarrow> Hot | Some t \<Rightarrow> t)
          in if currentTier = targetTier then (Some currentMem, hs)
             else let hs1 = (case currentTier of
                               Hot \<Rightarrow> hs\<lparr>hotCache := mapDelete (hotCache hs) i\<rparr>
                             | Warm \<Rightarrow> hs\<lparr>warmStore := store_delete (warmStore hs) i\<rparr>
                             | Cold \<Rightarrow> hs\<lparr>coldStore := store_delete (coldStore hs) i\<rparr>);
                      (processed, same, hs2) = storeToTier ops hs1 now currentMem targetTier
                  in if same
                     then (Some processed,
                           if currentTier \<noteq> Hot \<and> targetTier \<noteq> Hot
                           then hs2\<lparr>hotCache := mapSet (hotCache hs2) i processed\<rparr> else hs2)
                     else (Some currentMem, hs2))"

definition touch :: "summarisers \<Rightarrow> hstorage \<Rightarrow> int \<Rightarrow> string \<Rightarrow> V5Memory option \<times> hstorage" where
  "touch ops hs now i =
     (case mapGet (hotCache hs) i of
        None \<Rightarrow> (None, hs)
      | Some mem \<Rightarrow>
          let mem1 = mem\<lparr>meta := (meta mem)\<lparr>lifecycle :=
                       (lifecycle (meta mem))\<lparr>lastUsedAt := Some now\<rparr>\<rparr>\<rparr>;
              hs1 = hs\<lparr>hotCache := mapSet (hotCache hs) i mem1\<rparr>;
              newTier = determineTier now mem1
          in if Some newTier \<noteq> storage_tier (meta mem1)
             then migrateToTier ops hs1 now i newTier
             else (Some mem1, hs1))"

text \<open>
  \<open>get\<close> returns the record object (\<open>None\<close> is \<open>null\<close> or \<open>undefined\<close>) and the storage.
  For an id that only the warm or the cold store holds it calls \<open>migrateToTier\<close> and
  then reads the hot cache.
\<close>

definition hs_get :: "summarisers \<Rightarrow> hstorage \<Rightarrow> int \<Rightarrow> string \<Rightarrow> V5Memory option \<times> hstorage" where
  "hs_get ops hs now i =
     (if mapGet (hotCache hs) i \<noteq> None then touch ops hs now i
      else case store_get (warmStore hs) i of
             Some mem \<Rightarrow>
               let (r, hs') = migrateToTier ops hs now i Hot
               in (mapGet (hotCache hs') i, hs')
           | None \<Rightarrow>
               (case store_get (coldStore hs) i of
                  Some mem \<Rightarrow>
                    let (r, hs') = migrateToTier ops hs now i Warm
                    in (mapGet (hotCache hs') i, hs')
                | None \<Rightarrow> (None, hs)))"

text \<open>
  The filters of the tiered storage: its own \<open>matchesFilters\<close> reads the keys status,
  platform, type and tier; the file stores read status, platform, namespace and type.
\<close>

record hfilters = filters +
  f_tier :: "tier option"
  includeAllTiers :: bool

definition hs_matchesFilters :: "V5Memory \<Rightarrow> hfilters \<Rightarrow> bool" where
  "hs_matchesFilters memory fs \<longleftrightarrow>
     (case f_status fs of None \<Rightarrow> True | Some v \<Rightarrow> status (lifecycle (meta memory)) = v) \<and>
     (case f_platform fs of None \<Rightarrow> True | Some v \<Rightarrow> platform (meta memory) = v) \<and>
     (case f_type fs of None \<Rightarrow> True | Some v \<Rightarrow> body_type (body memory) = v) \<and>
     (case f_tier fs of None \<Rightarrow> True | Some v \<Rightarrow> storage_tier (meta memory) = Some v)"

definition hs_query :: "hstorage \<Rightarrow> hfilters \<Rightarrow> V5Memory list" where
  "hs_query hs fs =
     (let hotResults = filter (\<lambda>m. hs_matchesFilters m fs) (map snd (hotCache hs))
      in if includeAllTiers fs
         then let lower = query (warmStore hs) (filters.truncate fs)
                          @ query (coldStore hs) (filters.truncate fs)
              in foldl (\<lambda>results m.
                          if meta_id (meta m) \<in> set (map (\<lambda>r. meta_id (meta r)) hotResults)
                          then results else results @ [m]) hotResults lower
         else hotResults)"

text \<open>
  \<open>runCompressionCycle\<close> goes through the record objects that the hot cache holds when
  it starts.
\<close>

definition cycleStep :: "summarisers \<Rightarrow> int \<Rightarrow> hstorage \<Rightarrow> V5Memory \<Rightarrow> hstorage" where
  "cycleStep ops now hs mem =
     (let currentTier = (case storage_tier (meta mem) of None \<Rightarrow> Hot | Some t \<Rightarrow> t);
          targetTier = determineTier now mem
      in if currentTier \<noteq> targetTier
         then snd (migrateToTier ops hs now (meta_id (meta mem)) targetTier) else hs)"

definition runCompressionCycle :: "summarisers \<Rightarrow> hstorage \<Rightarrow> int \<Rightarrow> hstorage" where
  "runCompressionCycle ops hs now = foldl (cycleStep ops now) hs (map snd (hotCache hs))"

section \<open>One conversational turn (V5MetaEngine.processTurn)\<close>












section \<open>Example inputs\<close>

text \<open>
  Records shaped like the test memories of src/examples/02-retrieve-memory.js, and the
  configuration that example passes to the engine (with the constructor's defaults).
\<close>

definition testMemory :: "string \<Rightarrow> memory_type \<Rightarrow> jsstring \<Rightarrow> real \<Rightarrow> int \<Rightarrow> V5Memory" where
  "testMemory i t txt prio ts =
     \<lparr>meta = \<lparr>meta_id = i, platform = ''demo'', namespace = ''default'', tags = [],
              dimensions = Some \<lparr>confidence = 9 / 10, importance = 8 / 10, time_decay = 1,
                recall_priority = prio, dim_compressed = False, dim_compression_level = None\<rparr>,
              relations = \<lparr>supersedes = None, related_to = [], conversation_id = None,
                turn_id = None\<rparr>,
              lifecycle = \<lparr>createdAt = ts, updatedAt = ts, lastUsedAt = Some ts,
                expiresAt = None, ttl = 0, status = Active\<rparr>,
              security = \<lparr>sensitivity = Normal, masked = False, origin = Manual\<rparr>,
              meta_status = None, storage_tier = None, last_migrated = None\<rparr>,
      body = \<lparr>body_type = t, body_text = txt, raw_content = [], original_text = None,
              compression_level = None, body_keywords = None, compressed = None\<rparr>,
      usageCount = 0\<rparr>"

definition testConfig :: V5EngineConfig where
  "testConfig = \<lparr>cfg_gamma = 85 / 100, cfg_barrier = 1 / 2, recallThreshold = 1 / 2,
     writeThreshold = 6 / 10, cfg_platform = ''demo'', cfg_namespace = ''default'',
     cfg_budget = \<lparr>persona = 3, core = 4, episodic = 6\<rparr>, autoMaskSensitive = True,
     sensitivityPatterns = defaultSensitivityPatterns\<rparr>"


definition cexMemory :: V5Memory where
  "cexMemory = testMemory ''mem_1'' Persona (js ''likes python'') (4 / 10) 1000"

definition pinnedMemory :: V5Memory where
  "pinnedMemory = testMemory ''mem_0'' Pinned (js ''always answer in english'') 1 1000"

text \<open>A record without \<open>body.type\<close>, and a persona record that shares a word with the query \<open>rust\<close>.\<close>

definition untypedMemory :: V5Memory where
  "untypedMemory = testMemory ''mem_5'' NoType (js ''met bob at the station'') 1 1000"


text \<open>
  A stored record and a new record with the same text, both on platform demo in the
  namespace default.
\<close>

definition oldMemory :: V5Memory where
  "oldMemory = testMemory ''mem_1'' Persona (js ''i like python'') 1 1000"

definition newMemory :: V5Memory where
  "newMemory = testMemory ''mem_2'' Persona (js ''i like python'') 1 2000"

definition activeInScope :: filters where
  "activeInScope = \<lparr>f_status = Some Active, f_platform = Some ''demo'',
     f_namespace = Some ''default'', f_type = None\<rparr>"

text \<open>A record that expired at time 1500.\<close>

definition expiredMemory :: V5Memory where
  "expiredMemory =
     (let m = testMemory ''mem_3'' Episodic (js ''met alice yesterday'') 1 1000
      in m\<lparr>meta := (meta m)\<lparr>lifecycle := (lifecycle (meta m))\<lparr>expiresAt := Some 1500\<rparr>\<rparr>\<rparr>)"



text \<open>A persona candidate as the extractor produces it, and the context of the engine.\<close>

definition exampleCandidate :: candidate where
  "exampleCandidate = \<lparr>cand_type = Persona, cand_text = js ''i like python'',
     cand_dimensions = Some \<lparr>confidence = 8 / 10, importance = 7 / 10, time_decay = 9 / 10,
       recall_priority = 1, dim_compressed = False, dim_compression_level = None\<rparr>,
     rawContent = None\<rparr>"

definition exampleContext :: callContext where
  "exampleContext = \<lparr>ctx_platform = Some ''demo'', ctx_namespace = Some ''default'',
     conversationId = None, turnId = None\<rparr>"

text \<open>
  An instance of the summarisers for the examples: no keywords, the whole text as the
  one key sentence, and prefixes of the text as the shortened text.
\<close>

definition prefixSummarisers :: summarisers where
  "prefixSummarisers =
     \<lparr>kw_extract = (\<lambda>t n. []), extractKeySentences = (\<lambda>t l. [t]),
      compressLight = (\<lambda>t kws. take 7 t), compressMedium = (\<lambda>t kws ks. take 5 t),
      compressHeavy = (\<lambda>t kws ks. take 3 t), generateSummary = (\<lambda>t kws. take 1 t)\<rparr>"

text \<open>
  A pinned record that was compressed before: its text is the shortened one and
  \<open>original_text\<close> holds the full text.
\<close>

definition compressedPinned :: V5Memory where
  "compressedPinned =
     (let m = testMemory ''mem_4'' Pinned (js ''answer'') 1 1000
      in m\<lparr>body := (body m)\<lparr>original_text := Some (js ''answer in english''),
                   compression_level := Some 2\<rparr>\<rparr>)"

text \<open>The filters \<open>{}\<close> and \<open>{includeAllTiers: true}\<close> of the tiered storage.\<close>

definition hotOnly :: hfilters where
  "hotOnly = \<lparr>f_status = None, f_platform = None, f_namespace = None, f_type = None,
     f_tier = None, includeAllTiers = False\<rparr>"

definition allTiers :: hfilters where
  "allTiers = \<lparr>f_status = None, f_platform = None, f_namespace = None, f_type = None,
     f_tier = None, includeAllTiers = True\<rparr>"

section \<open>Properties of the lower-case mapping\<close>

lemma codePoints_bmp: "\<forall>c \<in> set s. c < 55296 \<Longrightarrow> codePoints s = s"
  by (induction s rule: codePoints.induct) auto

lemma lowerFrom_ascii: "\<forall>c \<in> set s. c < 128 \<Longrightarrow> lowerFrom before s = map asciiLower s"
  by (induction s arbitrary: before) (auto simp: lowerCodePoint_def)

lemma concat_codeUnits: "\<forall>c \<in> set s. c < 65536 \<Longrightarrow> concat (map codeUnits s) = s"
  by (induction s) (auto simp: codeUnits_def)

lemma asciiLower_less: "c < 128 \<Longrightarrow> asciiLower c < 128"
  by (auto simp: asciiLower_def)

lemma toLowerCase_ascii:
  assumes "\<forall>c \<in> set s. c < 128"
  shows "toLowerCase s = map asciiLower s"
proof -
  from assms have "\<forall>c \<in> set s. c < 55296" by auto
  then have 1: "codePoints s = s" by (rule codePoints_bmp)
  have 2: "lowerFrom [] s = map asciiLower s" using assms by (rule lowerFrom_ascii)
  have "\<forall>c \<in> set (map asciiLower s). c < 65536"
    using assms asciiLower_less by fastforce
  then have 3: "concat (map codeUnits (map asciiLower s)) = map asciiLower s"
    by (rule concat_codeUnits)
  show ?thesis unfolding toLowerCase_def 1 2 by (rule 3)
qed


text \<open>
  The Kelvin sign U+212A becomes \<open>k\<close>, U+00C9 becomes U+00E9, U+0130 becomes two code
  units, a capital sigma becomes the final sigma at the end of a word only, also before
  an apostrophe, and the Deseret capital letter U+10400, a surrogate pair, becomes
  U+10428.
\<close>

lemma caseProperties_examples: "\<not> isCaseIgnorable 913" "isCased 913" "isCaseIgnorable 39"
  by (simp_all add: isCaseIgnorable_def caseIgnorableRanges_def isCased_def casedRanges_def)

lemma toLowerCase_examples:
  "toLowerCase [8490] = [107]"
  "toLowerCase [201] = [233]"
  "toLowerCase [304] = [105, 775]"
  "toLowerCase [913, 931] = [945, 962]"
  "toLowerCase [931, 913] = [963, 945]"
  "toLowerCase [913, 39, 931, 39] = [945, 39, 962, 39]"
  "toLowerCase [55297, 56320] = [55297, 56360]"
  by (simp_all add: toLowerCase_def lowerCodePoint_def lowerCaseRuns_def codeUnits_def
      finalSigma_def caseProperties_examples asciiLower_def)

section \<open>Properties of the activation function\<close>

lemma toFixed4_mono: "p \<le> q \<Longrightarrow> toFixed4 p \<le> toFixed4 q"
  unfolding toFixed4_def by (simp add: divide_right_mono round_mono)

lemma toFixed4_range:
  assumes "0 \<le> p" and "p \<le> 1"
  shows "0 \<le> toFixed4 p \<and> toFixed4 p \<le> 1"
proof -
  have "toFixed4 0 \<le> toFixed4 p" and "toFixed4 p \<le> toFixed4 1"
    using assms by (simp_all add: toFixed4_mono)
  moreover have "toFixed4 0 = 0" and "toFixed4 1 = 1"
    by (simp_all add: toFixed4_def)
  ultimately show ?thesis by simp
qed

lemma sigmoid_range: "0 \<le> 1 / (1 + exp (e::real)) \<and> 1 / (1 + exp e) \<le> 1"
proof -
  have "0 < exp e" by simp
  then show ?thesis by (simp add: add_pos_pos)
qed

lemma sigmoid_mono:
  assumes "0 \<le> gamma" and "x \<le> (y::real)"
  shows "1 / (1 + exp (- 2 * gamma * (x - barrier))) \<le> 1 / (1 + exp (- 2 * gamma * (y - barrier)))"
proof -
  have "gamma * (x - barrier) \<le> gamma * (y - barrier)"
    using assms by (simp add: mult_left_mono)
  then have "exp (- 2 * gamma * (y - barrier)) \<le> exp (- 2 * gamma * (x - barrier))"
    by simp
  moreover have "0 < 1 + exp (- 2 * gamma * (y - barrier))"
    by (simp add: add_pos_pos)
  ultimately show ?thesis
    by (intro divide_left_mono) (simp_all add: add_pos_pos)
qed

lemma v5Formula_mono:
  assumes "0 \<le> gamma" and "x \<le> y"
  shows "v5Formula x gamma barrier \<le> v5Formula y gamma barrier"
proof -
  have "max 0 (min 1 x) \<le> max 0 (min 1 y)"
    using assms(2) by simp
  then show ?thesis
    unfolding v5Formula_def Let_def
    by (intro toFixed4_mono sigmoid_mono assms(1))
qed

lemma v5Formula_range: "0 \<le> v5Formula x gamma barrier \<and> v5Formula x gamma barrier \<le> 1"
  unfolding v5Formula_def Let_def
  using sigmoid_range by (intro toFixed4_range) blast+

lemma v5Formula_clamp: "v5Formula x gamma barrier = v5Formula (max 0 (min 1 x)) gamma barrier"
  by (simp add: v5Formula_def)

lemma v5Formula_barrier:
  assumes "0 \<le> barrier" and "barrier \<le> 1"
  shows "v5Formula barrier gamma barrier = 1 / 2"
  using assms by (simp add: v5Formula_def toFixed4_def)

lemma v5Formula_grid: "\<exists>n::int. v5Formula x gamma barrier = of_int n / 10000"
  unfolding v5Formula_def Let_def toFixed4_def by blast

lemma toFixed4_near: "\<bar>toFixed4 p - p\<bar> \<le> 1 / 20000"
proof -
  have "\<bar>of_int (round (p * 10000)) - p * 10000\<bar> \<le> 1 / 2"
    by (rule of_int_round_abs_le)
  then have "\<bar>(of_int (round (p * 10000)) - p * 10000) / 10000\<bar> \<le> (1 / 2) / 10000"
    by (simp only: abs_divide) (simp add: divide_right_mono)
  then show ?thesis by (simp add: toFixed4_def diff_divide_distrib)
qed

text \<open>
  Claim C7, as the code has it. For every \<open>gamma > 0\<close> and inputs \<open>0 \<le> x \<le> y \<le> 1\<close>:
  \<open>v5Formula\<close> returns a value in [0, 1]; it is monotonically non-decreasing in the
  input (\<open>v5Formula x \<le> v5Formula y\<close>); it returns exactly 0.5 when the input equals
  the barrier; any input \<open>z\<close> is clamped to [0, 1] before evaluation; and the result is
  the sigmoid \<open>1 / (1 + exp (-2 gamma (x - barrier)))\<close> rounded to 4 decimal places, a
  multiple of 1/10000 within 0.00005 of it. The rounding makes the function constant
  on short intervals, so it is not strictly increasing.
\<close>

theorem v5Formula_activation:
  assumes "0 < gamma" and "0 \<le> x" and "x \<le> y" and "y \<le> 1"
  shows "0 \<le> v5Formula x gamma barrier \<and> v5Formula x gamma barrier \<le> 1
       \<and> v5Formula x gamma barrier \<le> v5Formula y gamma barrier
       \<and> (x = barrier \<longrightarrow> v5Formula x gamma barrier = 1 / 2)
       \<and> v5Formula z gamma barrier = v5Formula (max 0 (min 1 z)) gamma barrier
       \<and> (\<exists>n::int. v5Formula z gamma barrier = of_int n / 10000)
       \<and> \<bar>v5Formula x gamma barrier - 1 / (1 + exp (- 2 * gamma * (x - barrier)))\<bar> \<le> 1 / 20000"
proof -
  have g: "0 \<le> gamma" using assms(1) by simp
  have near: "\<bar>v5Formula x gamma barrier - 1 / (1 + exp (- 2 * gamma * (x - barrier)))\<bar> \<le> 1 / 20000"
    using assms(2,3,4) toFixed4_near[of "1 / (1 + exp (- 2 * gamma * (x - barrier)))"]
    by (simp add: v5Formula_def)
  have bar: "x = barrier \<longrightarrow> v5Formula x gamma barrier = 1 / 2"
    using assms(2,3,4) v5Formula_barrier[of barrier gamma] by auto
  show ?thesis
    using v5Formula_range[of x gamma barrier] v5Formula_mono[OF g assms(3), of barrier]
      v5Formula_clamp[of z gamma barrier] v5Formula_grid[of z gamma barrier] near bar
    by blast
qed

text \<open>
  The theorem at \<open>gamma = 0.85\<close>, \<open>barrier = 0.5\<close>, \<open>x = 0.5\<close>, \<open>y = 1\<close> and \<open>z = 5\<close>.
\<close>

theorem v5Formula_activation_witness:
  "(0::real) < 17 / 20 \<and> (0::real) \<le> 1 / 2 \<and> (1 / 2 :: real) \<le> 1
   \<and> v5Formula (1 / 2) (17 / 20) (1 / 2) = 1 / 2
   \<and> v5Formula (1 / 2) (17 / 20) (1 / 2) \<le> v5Formula 1 (17 / 20) (1 / 2)
   \<and> v5Formula 5 (17 / 20) (1 / 2) = v5Formula 1 (17 / 20) (1 / 2)"
  using v5Formula_activation[of "17 / 20" "1 / 2" 1 "1 / 2" 5] by simp

text \<open>
  Claim C7 as stated fails: with the default \<open>gamma = 0.85\<close> and \<open>barrier = 0.5\<close> the
  inputs 0.5 and 0.50001 both give 0.5, because the two sigmoid values differ by less
  than half of 1/10000.
\<close>

theorem v5Formula_not_strict:
  "(1 / 2 :: real) < 50001 / 100000
   \<and> \<not> v5Formula (1 / 2) (17 / 20) (1 / 2) < v5Formula (50001 / 100000) (17 / 20) (1 / 2)"
proof -
  define e :: real where "e = - 2 * (17 / 20) * (50001 / 100000 - 1 / 2)"
  define p :: real where "p = 1 / (1 + exp e)"
  have e: "e = - 17 / 1000000" by (simp add: e_def)
  have lo: "1 + e \<le> exp e" by (rule exp_ge_add_one_self)
  have hi: "exp e \<le> 1" using e by simp
  have pos: "0 < 1 + exp e" by (simp add: add_pos_pos)
  have p_lo: "1 / 2 \<le> p" unfolding p_def using hi pos by (simp add: field_simps)
  have p_hi: "p \<le> 1 / (2 + e)"
    unfolding p_def using lo e by (intro divide_left_mono) (simp_all add: add_pos_pos)
  have "1 / (2 + e) < 50005 / 100000" using e by (simp add: field_simps)
  with p_hi have p_hi': "p < 50005 / 100000" by simp
  have "round (p * 10000) = 5000"
    unfolding round_def using p_lo p_hi' by (intro floor_unique) simp_all
  then have "toFixed4 p = 1 / 2" by (simp add: toFixed4_def)
  then have flat: "v5Formula (50001 / 100000) (17 / 20) (1 / 2) = 1 / 2"
    by (simp add: v5Formula_def p_def e_def)
  have "v5Formula (1 / 2) (17 / 20) (1 / 2) = 1 / 2"
    by (simp add: v5Formula_barrier)
  with flat show ?thesis by simp
qed

section \<open>Budget allocation and recall\<close>

lemma set_slice0: "set (slice0 xs n) \<subseteq> set xs"
  by (auto simp: slice0_def dest: in_set_takeD)

lemma length_slice0: "0 \<le> n \<Longrightarrow> int (length (slice0 xs n)) \<le> n"
  by (simp add: slice0_def)

lemma allocateBudget_types:
  "m \<in> set (allocateBudget scored bud) \<Longrightarrow> body_type (body m) \<in> {Persona, Core, Episodic}"
  using set_slice0 by (fastforce simp: allocateBudget_def Let_def)

lemma allocateBudget_subset: "set (allocateBudget scored bud) \<subseteq> set scored"
  using set_slice0 by (fastforce simp: allocateBudget_def Let_def)

lemma usedOf_Some: "usedOf u t = Some n \<Longrightarrow> t \<in> {Persona, Core, Episodic}"
  by (cases t) auto

lemma cropLoop_types:
  "\<forall>m \<in> set result. typeOrEpisodic (body_type (body m)) \<in> {Persona, Core, Episodic} \<Longrightarrow>
   m \<in> set (cropLoop bud u result ms) \<Longrightarrow>
   typeOrEpisodic (body_type (body m)) \<in> {Persona, Core, Episodic}"
proof (induction ms arbitrary: u result)
  case Nil
  then show ?case by simp
next
  case (Cons a ms)
  show ?case
  proof (cases "usedOf u (typeOrEpisodic (body_type (body a)))")
    case None
    with Cons show ?thesis by (simp add: Let_def)
  next
    case (Some n)
    then have a: "typeOrEpisodic (body_type (body a)) \<in> {Persona, Core, Episodic}"
      by (rule usedOf_Some)
    have ext: "\<forall>m \<in> set (result @ [a]). typeOrEpisodic (body_type (body m)) \<in> {Persona, Core, Episodic}"
      using Cons.prems(1) a by auto
    from Cons.prems(2) Some show ?thesis
      using Cons.IH[OF ext] Cons.IH[OF Cons.prems(1)]
      by (auto simp: Let_def split: if_splits)
  qed
qed

lemma cropMemories_types:
  "m \<in> set (cropMemories cfg ms) \<Longrightarrow> typeOrEpisodic (body_type (body m)) \<in> {Persona, Core, Episodic}"
  unfolding cropMemories_def using cropLoop_types[of "[]"] by simp

lemma typeOrEpisodic_known:
  "typeOrEpisodic t \<in> {Persona, Core, Episodic} \<longleftrightarrow> t \<in> {Persona, Core, Episodic, NoType}"
  by (cases t) (auto simp: typeOrEpisodic_def)

lemma filter_eq_const:
  assumes "\<forall>x \<in> set ys. f x = b"
  shows "filter (\<lambda>m. f m = a) ys = (if a = b then ys else [])"
  using assms by (induction ys) auto

lemma filter_slice0_filter:
  "filter (\<lambda>m. f m = a) (slice0 (filter (\<lambda>m. f m = b) xs) n)
     = (if a = b then slice0 (filter (\<lambda>m. f m = b) xs) n else [])"
proof -
  have "\<forall>x \<in> set (slice0 (filter (\<lambda>m. f m = b) xs) n). f x = b"
    using set_slice0[of "filter (\<lambda>m. f m = b) xs" n] by auto
  then show ?thesis by (rule filter_eq_const)
qed

lemma filter_allocateBudget_Persona:
  "filter (\<lambda>m. body_type (body m) = Persona) (allocateBudget scored bud)
     = slice0 (filter (\<lambda>m. body_type (body m) = Persona) scored) (persona bud)"
  unfolding allocateBudget_def Let_def filter_append
  by (simp add: filter_slice0_filter[of "\<lambda>m. body_type (body m)"])

lemma filter_allocateBudget_Core:
  "filter (\<lambda>m. body_type (body m) = Core) (allocateBudget scored bud)
     = slice0 (filter (\<lambda>m. body_type (body m) = Core) scored) (core bud)"
  unfolding allocateBudget_def Let_def filter_append
  by (simp add: filter_slice0_filter[of "\<lambda>m. body_type (body m)"])

lemma filter_allocateBudget_Episodic:
  "filter (\<lambda>m. body_type (body m) = Episodic) (allocateBudget scored bud)
     = slice0 (filter (\<lambda>m. body_type (body m) = Episodic) scored) (episodic bud)"
  unfolding allocateBudget_def Let_def filter_append
  by (simp add: filter_slice0_filter[of "\<lambda>m. body_type (body m)"])

lemma set_sortByScore: "set (sortByScore xs) = set xs"
  by (simp add: sortByScore_def)

lemma recallSelect_threshold:
  "m \<in> set (recallSelect cfg scored) \<Longrightarrow> recallThreshold cfg \<le> recallScore m"
  using allocateBudget_subset[of "sortByScore (filter (\<lambda>m. recallScore m \<ge> recallThreshold cfg) scored)" "cfg_budget cfg"]
  by (auto simp: recallSelect_def Let_def set_sortByScore)

lemma recallSelect_subset: "set (recallSelect cfg scored) \<subseteq> set scored"
  using allocateBudget_subset[of "sortByScore (filter (\<lambda>m. recallScore m \<ge> recallThreshold cfg) scored)" "cfg_budget cfg"]
  by (auto simp: recallSelect_def Let_def set_sortByScore)

text \<open>
  Claim C5, as the code has it. With non-negative budgets, for every pool of scored
  records the output of the score filter followed by \<open>allocateBudget\<close> (\<open>recallSelect\<close>,
  which \<open>recall\<close> applies to the scored active records of its scope) holds at most
  \<open>budget.persona\<close> persona records, at most \<open>budget.core\<close> core records and at most
  \<open>budget.episodic\<close> episodic records, holds no record of another type, and every
  record in it has a score greater than or equal to \<open>recallThreshold\<close>: the filter is
  \<open>recallScore >= recallThreshold\<close>, so a score equal to the threshold passes.
\<close>

theorem recallSelect_budget_threshold:
  assumes "0 \<le> persona (cfg_budget cfg)" and "0 \<le> core (cfg_budget cfg)"
    and "0 \<le> episodic (cfg_budget cfg)"
  shows "int (length (filter (\<lambda>m. body_type (body m) = Persona) (recallSelect cfg scored)))
           \<le> persona (cfg_budget cfg)
       \<and> int (length (filter (\<lambda>m. body_type (body m) = Core) (recallSelect cfg scored)))
           \<le> core (cfg_budget cfg)
       \<and> int (length (filter (\<lambda>m. body_type (body m) = Episodic) (recallSelect cfg scored)))
           \<le> episodic (cfg_budget cfg)
       \<and> (\<forall>m \<in> set (recallSelect cfg scored).
             body_type (body m) \<in> {Persona, Core, Episodic} \<and> recallThreshold cfg \<le> recallScore m)
       \<and> recall cfg st now input = recallSelect cfg
             (map (\<lambda>m. withScore m (calculateRecallScore now input m (cfg_gamma cfg) (cfg_barrier cfg)))
                (query st \<lparr>f_status = Some Active, f_platform = Some (cfg_platform cfg),
                            f_namespace = Some (cfg_namespace cfg), f_type = None\<rparr>))"
proof -
  let ?filtered = "sortByScore (filter (\<lambda>m. recallScore m \<ge> recallThreshold cfg) scored)"
  have sel: "recallSelect cfg scored = allocateBudget ?filtered (cfg_budget cfg)"
    by (simp add: recallSelect_def)
  have p: "int (length (filter (\<lambda>m. body_type (body m) = Persona) (recallSelect cfg scored)))
             \<le> persona (cfg_budget cfg)"
    unfolding sel filter_allocateBudget_Persona using assms(1) by (rule length_slice0)
  have c: "int (length (filter (\<lambda>m. body_type (body m) = Core) (recallSelect cfg scored)))
             \<le> core (cfg_budget cfg)"
    unfolding sel filter_allocateBudget_Core using assms(2) by (rule length_slice0)
  have e: "int (length (filter (\<lambda>m. body_type (body m) = Episodic) (recallSelect cfg scored)))
             \<le> episodic (cfg_budget cfg)"
    unfolding sel filter_allocateBudget_Episodic using assms(3) by (rule length_slice0)
  have t: "\<forall>m \<in> set (recallSelect cfg scored).
             body_type (body m) \<in> {Persona, Core, Episodic} \<and> recallThreshold cfg \<le> recallScore m"
  proof
    fix m assume m: "m \<in> set (recallSelect cfg scored)"
    then have "body_type (body m) \<in> {Persona, Core, Episodic}"
      unfolding sel by (rule allocateBudget_types)
    with m show "body_type (body m) \<in> {Persona, Core, Episodic} \<and> recallThreshold cfg \<le> recallScore m"
      by (simp add: recallSelect_threshold)
  qed
  have r: "recall cfg st now input = recallSelect cfg
             (map (\<lambda>m. withScore m (calculateRecallScore now input m (cfg_gamma cfg) (cfg_barrier cfg)))
                (query st \<lparr>f_status = Some Active, f_platform = Some (cfg_platform cfg),
                            f_namespace = Some (cfg_namespace cfg), f_type = None\<rparr>))"
    by (simp add: recall_def)
  from p c e t r show ?thesis by blast
qed

lemma js_eval: "js [] = []" "js (c # cs) = of_char c # js cs"
  by (simp_all add: js_def)

lemma cex_keyword: "calculateKeywordSimilarity (js ''rust'') (js ''likes python'') = 0"
  by (simp add: calculateKeywordSimilarity_def normalizeText_def split_ws_def js_eval
      toLowerCase_ascii asciiLower_def isSpace_def isWordChar_def isCJK_def newSet_def Let_def)

lemma cex_inputScore: "inputScore 1000 (js ''rust'') cexMemory = 1 / 2"
  unfolding inputScore_def Let_def
  by (simp add: cexMemory_def testMemory_def cex_keyword calculateTimeDecay_def num_or_def)

text \<open>
  Claim C5 as stated fails: a persona record on platform demo with
  \<open>recall_priority = 0.4\<close>, last used at the time of the query, and a query that shares
  no word with it has the input score \<open>0.3 * 0 + 0.3 * 0.4 + 0.2 * 1 + 0.2 * 0.9 = 0.5\<close>,
  the barrier, so its recall score is exactly 0.5. With \<open>recallThreshold = 0.5\<close> the
  record is recalled although its score does not exceed the threshold.
\<close>

theorem recall_threshold_counterexample:
  "recall testConfig [cexMemory] 1000 (js ''rust'') = [withScore cexMemory (1 / 2)]
   \<and> \<not> (recallThreshold testConfig < recallScore (withScore cexMemory (1 / 2)))"
proof -
  have q: "query [cexMemory] \<lparr>f_status = Some Active, f_platform = Some ''demo'',
              f_namespace = Some ''default'', f_type = None\<rparr> = [cexMemory]"
    by (simp add: query_def matchesFilters_def cexMemory_def testMemory_def)
  have s: "\<And>g. calculateRecallScore 1000 (js ''rust'') cexMemory g (1 / 2) = 1 / 2"
    by (simp add: calculateRecallScore_def cex_inputScore v5Formula_barrier)
  have b: "body_type (body (withScore cexMemory (1 / 2))) = Persona"
    by (simp add: withScore_def V5Memory.extend_def cexMemory_def testMemory_def)
  have r: "recallScore (withScore cexMemory (1 / 2)) = 1 / 2"
    by (simp add: withScore_def V5Memory.extend_def)
  show ?thesis
    by (simp add: recall_def testConfig_def q s Let_def recallSelect_def sortByScore_def
        allocateBudget_def slice0_def b r)
qed

text \<open>
  Claim C10, as the code has it. Every record in the output of \<open>allocateBudget\<close>, and so
  of \<open>recall\<close>, has the type persona, core or episodic: a pinned record, one of an
  unrecognised type and one without a type are dropped. \<open>cropMemories\<close> never includes
  a pinned record or one of an unrecognised type either, but it does include a record
  whose \<open>body.type\<close> is missing or empty, which it counts as episodic
  (\<open>mem.body?.type || 'episodic'\<close>). So a pinned record appears neither in the output of
  \<open>recall\<close> nor in the records that \<open>cropMemories\<close> selects for the injection.
\<close>

theorem budget_steps_drop_pinned:
  "(\<forall>m \<in> set (allocateBudget scored bud). body_type (body m) \<in> {Persona, Core, Episodic})
   \<and> (\<forall>m \<in> set (cropMemories cfg sortedMemories).
         body_type (body m) \<in> {Persona, Core, Episodic, NoType})
   \<and> (\<forall>m \<in> set (recall cfg st now input). body_type (body m) \<in> {Persona, Core, Episodic})"
proof -
  have a: "\<forall>m \<in> set (allocateBudget scored bud). body_type (body m) \<in> {Persona, Core, Episodic}"
    using allocateBudget_types by blast
  have c: "\<forall>m \<in> set (cropMemories cfg sortedMemories).
         body_type (body m) \<in> {Persona, Core, Episodic, NoType}"
    using cropMemories_types typeOrEpisodic_known by blast
  have r: "\<forall>m \<in> set (recall cfg st now input). body_type (body m) \<in> {Persona, Core, Episodic}"
    unfolding recall_def Let_def recallSelect_def using allocateBudget_types by blast
  from a c r show ?thesis by blast
qed

text \<open>
  The theorem on a pool that holds a pinned record and a persona record: the pinned
  record is in neither output.
\<close>

theorem budget_steps_drop_pinned_witness:
  "body_type (body pinnedMemory) = Pinned
   \<and> pinnedMemory \<notin> set (allocateBudget [pinnedMemory, cexMemory] \<lparr>persona = 3, core = 4, episodic = 6\<rparr>)
   \<and> pinnedMemory \<notin> set (cropMemories testConfig [pinnedMemory, cexMemory])"
proof -
  have p: "body_type (body pinnedMemory) = Pinned"
    by (simp add: pinnedMemory_def testMemory_def)
  show ?thesis
    using p budget_steps_drop_pinned[of "[pinnedMemory, cexMemory]"
        "\<lparr>persona = 3, core = 4, episodic = 6\<rparr>" testConfig "[pinnedMemory, cexMemory]" "[]" 0 "[]"]
    by auto
qed

text \<open>
  Claim C10 as stated fails for \<open>cropMemories\<close>: a record without \<open>body.type\<close> is
  emitted, so the output holds a record whose type is none of persona, core and
  episodic. \<open>allocateBudget\<close> drops the same record.
\<close>

theorem cropMemories_untyped_counterexample:
  "body_type (body untypedMemory) = NoType
   \<and> body_type (body untypedMemory) \<notin> {Persona, Core, Episodic}
   \<and> cropMemories testConfig [pinnedMemory, untypedMemory] = [untypedMemory]
   \<and> allocateBudget [pinnedMemory, untypedMemory] (cfg_budget testConfig) = []"
proof -
  have u: "body_type (body untypedMemory) = NoType"
    by (simp add: untypedMemory_def testMemory_def)
  have p: "body_type (body pinnedMemory) = Pinned"
    by (simp add: pinnedMemory_def testMemory_def)
  have c: "cropMemories testConfig [pinnedMemory, untypedMemory] = [untypedMemory]"
    by (simp add: cropMemories_def u p typeOrEpisodic_def testConfig_def)
  have a: "allocateBudget [pinnedMemory, untypedMemory] (cfg_budget testConfig) = []"
    by (simp add: allocateBudget_def u p slice0_def)
  from u c a show ?thesis by simp
qed

text \<open>
  The theorem for the default budget (3, 4, 6) and a pool of one persona record with
  score 0.5.
\<close>

theorem recallSelect_budget_threshold_witness:
  "0 \<le> persona (cfg_budget testConfig) \<and> 0 \<le> core (cfg_budget testConfig)
   \<and> 0 \<le> episodic (cfg_budget testConfig)
   \<and> withScore cexMemory (1 / 2) \<in> set (recallSelect testConfig [withScore cexMemory (1 / 2)])
   \<and> recallThreshold testConfig \<le> recallScore (withScore cexMemory (1 / 2))
   \<and> int (length (filter (\<lambda>m. body_type (body m) = Persona)
         (recallSelect testConfig [withScore cexMemory (1 / 2)]))) \<le> 3"
proof -
  have b: "body_type (body (withScore cexMemory (1 / 2))) = Persona"
    by (simp add: withScore_def V5Memory.extend_def cexMemory_def testMemory_def)
  have r: "recallScore (withScore cexMemory (1 / 2)) = 1 / 2"
    by (simp add: withScore_def V5Memory.extend_def)
  have m: "recallSelect testConfig [withScore cexMemory (1 / 2)] = [withScore cexMemory (1 / 2)]"
    by (simp add: recallSelect_def testConfig_def sortByScore_def allocateBudget_def slice0_def b r)
  have h: "0 \<le> persona (cfg_budget testConfig)" "0 \<le> core (cfg_budget testConfig)"
    "0 \<le> episodic (cfg_budget testConfig)"
    by (simp_all add: testConfig_def)
  note th = recallSelect_budget_threshold[OF h, of "[withScore cexMemory (1 / 2)]" "[]" 0 "[]"]
  have len: "int (length (filter (\<lambda>m. body_type (body m) = Persona)
         (recallSelect testConfig [withScore cexMemory (1 / 2)]))) \<le> persona (cfg_budget testConfig)"
    using th by blast
  have three: "persona (cfg_budget testConfig) = 3"
    by (simp add: testConfig_def)
  have "\<forall>m \<in> set (recallSelect testConfig [withScore cexMemory (1 / 2)]).
          recallThreshold testConfig \<le> recallScore m"
    using th by blast
  then have thr: "recallThreshold testConfig \<le> recallScore (withScore cexMemory (1 / 2))"
    unfolding m by simp
  have mem: "withScore cexMemory (1 / 2) \<in> set (recallSelect testConfig [withScore cexMemory (1 / 2)])"
    unfolding m by simp
  from h len three thr mem show ?thesis by simp
qed
section \<open>The recall score\<close>








lemma calculateTimeDecay_pos: "0 < calculateTimeDecay now lu h"
  by (simp add: calculateTimeDecay_def Let_def split: option.splits)

lemma calculateTimeDecay_le_1:
  assumes "lu = Some t" and "t \<le> now" and "0 < h"
  shows "calculateTimeDecay now lu h \<le> 1"
proof -
  have "0 \<le> real_of_int (now - t) / (1000 * 60 * 60 * 24) / h"
    using assms(2,3) by simp
  then have "(1 / 2) powr (real_of_int (now - t) / (1000 * 60 * 60 * 24) / h) \<le> 1"
    by (intro powr_le1) simp_all
  then show ?thesis using assms(1) by (simp add: calculateTimeDecay_def Let_def)
qed






































section \<open>Write path, conflict handling and cleanup\<close>

lemma text_eval: "js ''i like python'' = [105, 32, 108, 105, 107, 101, 32, 112, 121, 116, 104, 111, 110]"
  by (simp add: js_def)

lemma no_pattern: "\<not> (\<exists>pattern \<in> set defaultSensitivityPatterns. pattern (js ''i like python''))"
  unfolding text_eval
  by (simp add: defaultSensitivityPatterns_def searchApiKey_def js_def canonicalize_def isDigit_def)

lemma sim_same: "textSimilarity (js ''i like python'') (js ''i like python'') = 1"
  unfolding text_eval
  by (simp add: textSimilarity_def split_ws_def toLowerCase_ascii asciiLower_def isSpace_def newSet_def Let_def)

lemma name_order: "\<not> strcmpLess (getFilePath ''mem_2'') (getFilePath ''mem_1'')"
  by (simp add: getFilePath_def)

lemma writeScore_new: "calculateWriteScore newMemory = 88 / 100"
  by (simp add: calculateWriteScore_def newMemory_def testMemory_def num_or_def Let_def)

lemma processSensitive_new: "processSensitive testConfig newMemory = newMemory"
  using no_pattern
  by (simp add: processSensitive_def testConfig_def newMemory_def testMemory_def Let_def)

lemma findSimilar_new: "findSimilar [oldMemory] newMemory = Some oldMemory"
  using sim_same
  by (simp add: findSimilar_def query_def matchesFilters_def oldMemory_def newMemory_def testMemory_def Let_def)


lemma splitWs_nonempty: "splitWs cur s \<noteq> []"
  by (induction cur s rule: splitWs.induct) simp_all

lemma newSet_split_ws_nonempty: "newSet (split_ws s) \<noteq> []"
  by (simp add: newSet_def split_ws_def splitWs_nonempty)

lemma calculateMatchScore_NaN: "calculateMatchScore now input memory = NaN"
proof -
  have "newSet (newSet (split_ws (toLowerCase input))
                  @ newSet (split_ws (toLowerCase (body_text (body memory))))) \<noteq> []"
    using newSet_split_ws_nonempty[of "toLowerCase input"] by (simp add: newSet_def)
  then show ?thesis by (simp add: calculateMatchScore_def Let_def)
qed

lemma engine_textSimilarity_not_gt: "0 \<le> x \<Longrightarrow> \<not> js_gt (engine_textSimilarity a b) x"
  by (simp add: engine_textSimilarity_def Let_def)

lemma handleConflictLoop_never: "handleConflictLoop memory st all = (False, memory, st)"
  by (induction all) (simp_all add: Let_def engine_textSimilarity_not_gt)

lemma handleConflict_never: "handleConflict st memory = (False, memory, st)"
  by (simp add: handleConflict_def handleConflictLoop_never)

lemma writeFile_status:
  assumes "m \<in> set (writeFile st x)"
  shows "m = x \<or> m \<in> set st"
  using assms by (induction st) (auto split: if_splits)

text \<open>Writing a file keeps the listing in the order of the file names.\<close>

lemma strcmpLess_trans: "strcmpLess a b \<Longrightarrow> strcmpLess b c \<Longrightarrow> strcmpLess a c"
proof (induction a b arbitrary: c rule: strcmpLess.induct)
  case (1)
  then show ?case by simp
next
  case (2 y ys)
  then show ?case by (cases c) auto
next
  case (3 x xs)
  then show ?case by simp
next
  case (4 x xs y ys)
  then show ?case by (cases c) (auto split: if_splits)
qed

lemma strcmpLess_total: "\<not> strcmpLess a b \<Longrightarrow> a \<noteq> b \<Longrightarrow> strcmpLess b a"
proof (induction a b rule: strcmpLess.induct)
  case (4 x xs y ys)
  then show ?case by (auto simp: not_less le_less)
qed simp_all

lemma getFilePath_inj: "getFilePath a = getFilePath b \<longleftrightarrow> a = b"
  by (simp add: getFilePath_def)

lemma writeFile_listedInOrder:
  assumes "listedInOrder st"
  shows "listedInOrder (writeFile st memory)"
  using assms
proof (induction st)
  case Nil
  then show ?case by (simp add: listedInOrder_def)
next
  case (Cons m ms)
  let ?k = "\<lambda>a. getFilePath (meta_id (meta a))"
  from Cons.prems have hd: "\<forall>y \<in> set ms. strcmpLess (?k m) (?k y)" and tl: "listedInOrder ms"
    by (simp_all add: listedInOrder_def)
  show ?case
  proof (cases "meta_id (meta m) = meta_id (meta memory)")
    case True
    with hd tl show ?thesis by (simp add: listedInOrder_def)
  next
    case False
    show ?thesis
    proof (cases "strcmpLess (?k memory) (?k m)")
      case True
      then have "\<forall>y \<in> set ms. strcmpLess (?k memory) (?k y)"
        using hd strcmpLess_trans by blast
      with True False hd tl show ?thesis by (simp add: listedInOrder_def)
    next
      case less: False
      have "?k m \<noteq> ?k memory" using False by (simp add: getFilePath_inj)
      then have mm: "strcmpLess (?k m) (?k memory)"
        using less strcmpLess_total by metis
      have ih: "listedInOrder (writeFile ms memory)" using tl by (rule Cons.IH)
      have all: "\<forall>y \<in> set (writeFile ms memory). strcmpLess (?k m) (?k y)"
      proof
        fix y assume "y \<in> set (writeFile ms memory)"
        then have "y = memory \<or> y \<in> set ms" by (rule writeFile_status)
        then show "strcmpLess (?k m) (?k y)"
        proof
          assume "y = memory"
          then show ?thesis using mm by simp
        next
          assume "y \<in> set ms"
          then show ?thesis using hd by simp
        qed
      qed
      from False less ih all show ?thesis by (simp add: listedInOrder_def)
    qed
  qed
qed

lemma status_set_id: "status (lifecycle (meta (m\<lparr>meta := (meta m)\<lparr>meta_id := i\<rparr>\<rparr>))) = status (lifecycle (meta m))"
  by simp

lemma processSensitive_status:
  "status (lifecycle (meta (processSensitive cfg m))) = status (lifecycle (meta m))"
  by (simp add: processSensitive_def Let_def)

lemma findSimilar_in_store: "findSimilar st p = Some e \<Longrightarrow> e \<in> set st"
proof -
  assume "findSimilar st p = Some e"
  then have "e \<in> set (query st \<lparr>f_status = Some Active, f_platform = Some (platform (meta p)),
                           f_namespace = Some (namespace (meta p)), f_type = None\<rparr>)"
    unfolding findSimilar_def Let_def by (auto simp: find_Some_iff)
  then show ?thesis by (simp add: query_def)
qed

lemma writeOne_lifecycleStatuses:
  "lifecycleStatuses (snd (writeOne cfg now (written, st) mem)) \<subseteq> lifecycleStatuses st \<union> {status (lifecycle (meta mem))}"
proof (cases "calculateWriteScore mem < writeThreshold cfg")
  case True
  then show ?thesis by (auto simp: writeOne_def Let_def)
next
  case False
  let ?p = "processSensitive cfg mem"
  show ?thesis
  proof (cases "findSimilar st ?p")
    case None
    have "lifecycleStatuses (writeFile st (?p\<lparr>meta := (meta ?p)\<lparr>meta_id :=
            (if meta_id (meta ?p) = [] then ''mem_'' @ decimal (nat now) else meta_id (meta ?p))\<rparr>\<rparr>))
          \<subseteq> lifecycleStatuses st \<union> {status (lifecycle (meta mem))}"
      unfolding lifecycleStatuses_def using writeFile_status processSensitive_status[of cfg mem]
      by (fastforce simp del: decimal.simps)
    with False None show ?thesis
      by (simp add: writeOne_def Let_def store_add_def del: decimal.simps)
  next
    case (Some e)
    let ?p' = "?p\<lparr>meta := (meta ?p)\<lparr>relations :=
                 (relations (meta ?p))\<lparr>supersedes := Some (meta_id (meta e))\<rparr>\<rparr>\<rparr>"
    let ?e' = "e\<lparr>meta := (meta e)\<lparr>meta_status := Some Superseded\<rparr>\<rparr>"
    have e: "e \<in> set st" using Some by (rule findSimilar_in_store)
    have 1: "lifecycleStatuses (writeFile st ?e') \<subseteq> lifecycleStatuses st"
      unfolding lifecycleStatuses_def using writeFile_status[of _ st ?e'] e by fastforce
    have 2: "lifecycleStatuses (writeFile (writeFile st ?e') (?p'\<lparr>meta := (meta ?p')\<lparr>meta_id :=
            (if meta_id (meta ?p') = [] then ''mem_'' @ decimal (nat now) else meta_id (meta ?p'))\<rparr>\<rparr>))
          \<subseteq> lifecycleStatuses (writeFile st ?e') \<union> {status (lifecycle (meta mem))}"
      unfolding lifecycleStatuses_def using writeFile_status processSensitive_status[of cfg mem]
      by (fastforce simp del: decimal.simps)
    from 1 2 have "lifecycleStatuses (writeFile (writeFile st ?e') (?p'\<lparr>meta := (meta ?p')\<lparr>meta_id :=
            (if meta_id (meta ?p') = [] then ''mem_'' @ decimal (nat now) else meta_id (meta ?p'))\<rparr>\<rparr>))
          \<subseteq> lifecycleStatuses st \<union> {status (lifecycle (meta mem))}"
      by blast
    with False Some show ?thesis
      by (simp add: writeOne_def Let_def store_add_def store_update_def del: decimal.simps)
  qed
qed


lemma foldl_writeOne_lifecycleStatuses:
  "lifecycleStatuses (snd (foldl (writeOne cfg now) (written, st) mems))
     \<subseteq> lifecycleStatuses st \<union> lifecycleStatuses mems"
proof (induction mems arbitrary: written st)
  case Nil
  then show ?case by simp
next
  case (Cons mem mems)
  obtain w' st' where step: "writeOne cfg now (written, st) mem = (w', st')"
    by (cases "writeOne cfg now (written, st) mem")
  have 1: "lifecycleStatuses st' \<subseteq> lifecycleStatuses st \<union> {status (lifecycle (meta mem))}"
    using writeOne_lifecycleStatuses[of cfg now written st mem] step by simp
  have 2: "lifecycleStatuses (snd (foldl (writeOne cfg now) (w', st') mems))
             \<subseteq> lifecycleStatuses st' \<union> lifecycleStatuses mems"
    by (rule Cons.IH)
  have 3: "lifecycleStatuses (mem # mems) = {status (lifecycle (meta mem))} \<union> lifecycleStatuses mems"
    by (simp add: lifecycleStatuses_def)
  from 1 2 3 show ?case
    unfolding foldl_Cons step by blast
qed

lemma engine_write_lifecycleStatuses:
  "lifecycleStatuses (snd (engine_write cfg st mems now))
     \<subseteq> lifecycleStatuses st \<union> lifecycleStatuses mems"
  unfolding engine_write_def by (rule foldl_writeOne_lifecycleStatuses)

lemma cleanupOne_lifecycleStatuses:
  assumes "mem \<in> set st0" and "lifecycleStatuses st \<subseteq> lifecycleStatuses st0"
  shows "lifecycleStatuses (snd (cleanupOne now (cleaned, st) mem)) \<subseteq> lifecycleStatuses st0"
proof -
  let ?m' = "mem\<lparr>meta := (meta mem)\<lparr>meta_status := Some Expired\<rparr>\<rparr>"
  have "lifecycleStatuses (writeFile st ?m') \<subseteq> lifecycleStatuses st0"
    unfolding lifecycleStatuses_def
  proof
    fix x assume "x \<in> (\<lambda>m. status (lifecycle (meta m))) ` set (writeFile st ?m')"
    then obtain m where m: "m \<in> set (writeFile st ?m')" and x: "x = status (lifecycle (meta m))"
      by blast
    from m have "m = ?m' \<or> m \<in> set st" by (rule writeFile_status)
    then show "x \<in> (\<lambda>m. status (lifecycle (meta m))) ` set st0"
    proof
      assume "m = ?m'"
      then have "x = status (lifecycle (meta mem))" using x by simp
      then show ?thesis using assms(1) by blast
    next
      assume "m \<in> set st"
      then have "x \<in> lifecycleStatuses st" using x by (auto simp: lifecycleStatuses_def)
      then show ?thesis using assms(2) by (auto simp: lifecycleStatuses_def)
    qed
  qed
  then show ?thesis
    using assms(2) by (simp add: cleanupOne_def store_update_def split: option.splits)
qed

lemma foldl_cleanupOne_lifecycleStatuses:
  assumes "set all \<subseteq> set st0" and "lifecycleStatuses st \<subseteq> lifecycleStatuses st0"
  shows "lifecycleStatuses (snd (foldl (cleanupOne now) (cleaned, st) all)) \<subseteq> lifecycleStatuses st0"
  using assms
proof (induction all arbitrary: cleaned st)
  case Nil
  then show ?case by simp
next
  case (Cons mem all)
  obtain c' st' where step: "cleanupOne now (cleaned, st) mem = (c', st')"
    by (cases "cleanupOne now (cleaned, st) mem")
  have "mem \<in> set st0" using Cons.prems(1) by simp
  then have "lifecycleStatuses st' \<subseteq> lifecycleStatuses st0"
    using cleanupOne_lifecycleStatuses[OF _ Cons.prems(2), of mem now cleaned] step by simp
  moreover have "set all \<subseteq> set st0" using Cons.prems(1) by simp
  ultimately show ?case
    unfolding foldl_Cons step by (rule Cons.IH[rotated])
qed

lemma cleanup_lifecycleStatuses:
  "lifecycleStatuses (snd (cleanup cfg st now)) \<subseteq> lifecycleStatuses st"
  unfolding cleanup_def Let_def
  by (rule foldl_cleanupOne_lifecycleStatuses) (auto simp: query_def)


lemma ids_fix: "meta_id (meta oldMemory) = ''mem_1''" "meta_id (meta newMemory) = ''mem_2''"
  by (simp_all add: oldMemory_def newMemory_def testMemory_def)

text \<open>
  Claim C1 on the code. The store holds one active record \<open>mem_1\<close> with the text
  \<open>i like python\<close>; \<open>write\<close> gets a new record \<open>mem_2\<close> with the same text in the same
  scope. The store's similarity of the two texts is 1, so \<open>write\<close> sets
  \<open>relations.supersedes\<close> of the new record to \<open>mem_1\<close>; on the prior record it sets the
  property \<open>meta.status\<close> and leaves \<open>meta.lifecycle.status\<close> at \<open>active\<close>, so the query
  for the active records of the scope still returns the prior record, before the new
  one. \<open>handleConflict\<close> on the same input finds no conflict at all
  (\<open>handleConflict_never\<close>: its similarity is never above 0.8). More generally \<open>write\<close>
  and \<open>cleanup\<close> never bring a new value of \<open>meta.lifecycle.status\<close> into the store
  (\<open>engine_write_lifecycleStatuses\<close>, \<open>cleanup_lifecycleStatuses\<close>).
\<close>

theorem engine_write_prior_stays_active:
  "engine_write testConfig [oldMemory] [newMemory] 2000
     = ([newMemory\<lparr>meta := (meta newMemory)\<lparr>relations :=
            (relations (meta newMemory))\<lparr>supersedes := Some ''mem_1''\<rparr>\<rparr>\<rparr>],
        [oldMemory\<lparr>meta := (meta oldMemory)\<lparr>meta_status := Some Superseded\<rparr>\<rparr>,
         newMemory\<lparr>meta := (meta newMemory)\<lparr>relations :=
            (relations (meta newMemory))\<lparr>supersedes := Some ''mem_1''\<rparr>\<rparr>\<rparr>])
   \<and> query (snd (engine_write testConfig [oldMemory] [newMemory] 2000)) activeInScope
     = [oldMemory\<lparr>meta := (meta oldMemory)\<lparr>meta_status := Some Superseded\<rparr>\<rparr>,
        newMemory\<lparr>meta := (meta newMemory)\<lparr>relations :=
            (relations (meta newMemory))\<lparr>supersedes := Some ''mem_1''\<rparr>\<rparr>\<rparr>]
   \<and> status (lifecycle (meta (oldMemory\<lparr>meta := (meta oldMemory)\<lparr>meta_status := Some Superseded\<rparr>\<rparr>)))
     = Active
   \<and> textSimilarity (body_text (body newMemory)) (body_text (body oldMemory)) = 1
   \<and> handleConflict [oldMemory] newMemory = (False, newMemory, [oldMemory])"
proof -
  have thr: "\<not> calculateWriteScore newMemory < writeThreshold testConfig"
    by (simp add: writeScore_new testConfig_def)
  have w: "engine_write testConfig [oldMemory] [newMemory] 2000
     = ([newMemory\<lparr>meta := (meta newMemory)\<lparr>relations :=
            (relations (meta newMemory))\<lparr>supersedes := Some ''mem_1''\<rparr>\<rparr>\<rparr>],
        [oldMemory\<lparr>meta := (meta oldMemory)\<lparr>meta_status := Some Superseded\<rparr>\<rparr>,
         newMemory\<lparr>meta := (meta newMemory)\<lparr>relations :=
            (relations (meta newMemory))\<lparr>supersedes := Some ''mem_1''\<rparr>\<rparr>\<rparr>])"
    unfolding engine_write_def foldl_Cons foldl_Nil writeOne_def
    using thr
    by (simp add: processSensitive_new findSimilar_new store_add_def store_update_def ids_fix Let_def
        name_order)
  have q: "query [oldMemory\<lparr>meta := (meta oldMemory)\<lparr>meta_status := Some Superseded\<rparr>\<rparr>,
         newMemory\<lparr>meta := (meta newMemory)\<lparr>relations :=
            (relations (meta newMemory))\<lparr>supersedes := Some ''mem_1''\<rparr>\<rparr>\<rparr>] activeInScope
     = [oldMemory\<lparr>meta := (meta oldMemory)\<lparr>meta_status := Some Superseded\<rparr>\<rparr>,
        newMemory\<lparr>meta := (meta newMemory)\<lparr>relations :=
            (relations (meta newMemory))\<lparr>supersedes := Some ''mem_1''\<rparr>\<rparr>\<rparr>]"
    by (simp add: query_def matchesFilters_def activeInScope_def oldMemory_def newMemory_def
        testMemory_def)
  have a: "status (lifecycle (meta (oldMemory\<lparr>meta := (meta oldMemory)\<lparr>meta_status := Some Superseded\<rparr>\<rparr>)))
     = Active"
    by (simp add: oldMemory_def testMemory_def)
  have t: "textSimilarity (body_text (body newMemory)) (body_text (body oldMemory)) = 1"
    using sim_same by (simp add: oldMemory_def newMemory_def testMemory_def)
  show ?thesis
    unfolding w using q a t handleConflict_never by simp
qed

text \<open>
  Claim C3 on the code. The store holds one active record whose \<open>expiresAt\<close> is 1500,
  and \<open>cleanup\<close> runs at time 2000. It counts the record as cleaned and sets the
  property \<open>meta.status\<close> on it; \<open>meta.lifecycle.status\<close> stays \<open>active\<close>, and the query for
  the active records of the scope, which feeds \<open>recall\<close>, still returns the record.
\<close>

theorem cleanup_expired_stays_active:
  "cleanup testConfig [expiredMemory] 2000
     = (1, [expiredMemory\<lparr>meta := (meta expiredMemory)\<lparr>meta_status := Some Expired\<rparr>\<rparr>])
   \<and> expiresAt (lifecycle (meta expiredMemory)) = Some 1500
   \<and> status (lifecycle (meta (expiredMemory\<lparr>meta := (meta expiredMemory)\<lparr>meta_status := Some Expired\<rparr>\<rparr>)))
     = Active
   \<and> query (snd (cleanup testConfig [expiredMemory] 2000)) activeInScope
     = [expiredMemory\<lparr>meta := (meta expiredMemory)\<lparr>meta_status := Some Expired\<rparr>\<rparr>]"
proof -
  have q0: "query [expiredMemory] \<lparr>f_status = None, f_platform = Some ''demo'',
               f_namespace = Some ''default'', f_type = None\<rparr> = [expiredMemory]"
    by (simp add: query_def matchesFilters_def expiredMemory_def testMemory_def Let_def)
  have f: "expiresAt (lifecycle (meta expiredMemory)) = Some 1500"
    "status (lifecycle (meta expiredMemory)) = Active"
    by (simp_all add: expiredMemory_def testMemory_def Let_def)
  have c: "cleanup testConfig [expiredMemory] 2000
     = (1, [expiredMemory\<lparr>meta := (meta expiredMemory)\<lparr>meta_status := Some Expired\<rparr>\<rparr>])"
    unfolding cleanup_def Let_def
    by (simp add: testConfig_def q0 cleanupOne_def f store_update_def)
  have q: "query [expiredMemory\<lparr>meta := (meta expiredMemory)\<lparr>meta_status := Some Expired\<rparr>\<rparr>] activeInScope
     = [expiredMemory\<lparr>meta := (meta expiredMemory)\<lparr>meta_status := Some Expired\<rparr>\<rparr>]"
    by (simp add: query_def matchesFilters_def activeInScope_def expiredMemory_def testMemory_def Let_def)
  show ?thesis
    unfolding c using q f by simp
qed

section \<open>One conversational turn\<close>






section \<open>Extractor\<close>

text \<open>
  Claim C8 on the code. \<open>createMemoryEntry\<close> computes \<open>expiresAt\<close> from \<open>Date.now()()\<close>,
  the call of a number, so for every candidate, context, clock and random suffix it
  throws a \<open>TypeError\<close> and returns no record; in particular for the persona candidate
  of the example.
\<close>

theorem createMemoryEntry_throws:
  "createMemoryEntry cand ctx now rnd = Inl (TypeError ''Date.now(...) is not a function'')
   \<and> createMemoryEntry exampleCandidate exampleContext 1000 ''abc1234''
       = Inl (TypeError ''Date.now(...) is not a function'')"
  by (simp add: createMemoryEntry_def callNumber_def Let_def del: decimal.simps)

section \<open>Compressor\<close>

lemma decompress_compress:
  "body_text (body (decompress (compress ops now memory level)))
     = (if compressReturnsArgument now memory level
        then (case original_text (body memory) of
                None \<Rightarrow> body_text (body memory)
              | Some t \<Rightarrow> if t = [] then body_text (body memory) else t)
        else body_text (body memory))"
  by (simp add: compress_def decompress_def compressReturnsArgument_def Let_def split: option.splits)

text \<open>
  Claim C9, as the code has it. \<open>decompress (compress record level)\<close> restores
  \<open>body.text\<close> to its value before the compression whenever \<open>compress\<close> builds a
  compressed record (the text is not empty and the level in effect is not \<open>NONE\<close>; the
  compressed record then keeps the text in \<open>original_text\<close>), and whenever the record
  carries no non-empty \<open>original_text\<close>. When \<open>compress\<close> returns the record unchanged and
  the record already carries a non-empty \<open>original_text\<close>, \<open>decompress\<close> sets \<open>body.text\<close>
  to that older original text.
\<close>

theorem decompress_compress_text:
  "(\<not> compressReturnsArgument now memory level \<longrightarrow>
      body_text (body (decompress (compress ops now memory level))) = body_text (body memory)
      \<and> original_text (body (compress ops now memory level)) = Some (body_text (body memory)))
   \<and> (original_text (body memory) = None \<or> original_text (body memory) = Some [] \<longrightarrow>
      body_text (body (decompress (compress ops now memory level))) = body_text (body memory))
   \<and> (\<forall>t. compressReturnsArgument now memory level \<and> original_text (body memory) = Some t \<and> t \<noteq> []
        \<longrightarrow> compress ops now memory level = memory
          \<and> body_text (body (decompress (compress ops now memory level))) = t)"
proof -
  have 1: "\<not> compressReturnsArgument now memory level \<Longrightarrow>
      original_text (body (compress ops now memory level)) = Some (body_text (body memory))"
    by (simp add: compress_def compressReturnsArgument_def Let_def)
  have 2: "compressReturnsArgument now memory level \<Longrightarrow> compress ops now memory level = memory"
    by (auto simp: compress_def compressReturnsArgument_def Let_def)
  have 3: "\<And>t. original_text (body memory) = Some t \<Longrightarrow> t \<noteq> [] \<Longrightarrow>
      body_text (body (decompress memory)) = t"
    by (simp add: decompress_def)
  have a: "\<not> compressReturnsArgument now memory level \<longrightarrow>
      body_text (body (decompress (compress ops now memory level))) = body_text (body memory)
      \<and> original_text (body (compress ops now memory level)) = Some (body_text (body memory))"
    using 1 by (simp add: decompress_compress)
  have b: "original_text (body memory) = None \<or> original_text (body memory) = Some [] \<longrightarrow>
      body_text (body (decompress (compress ops now memory level))) = body_text (body memory)"
    by (auto simp: decompress_compress)
  have c: "\<forall>t. compressReturnsArgument now memory level \<and> original_text (body memory) = Some t \<and> t \<noteq> []
        \<longrightarrow> compress ops now memory level = memory
          \<and> body_text (body (decompress (compress ops now memory level))) = t"
    using 2 3 by simp
  from a b c show ?thesis by blast
qed

lemma importance_pinned: "evaluateImportance 1000 compressedPinned = 1"
proof -
  have "(1 / 2 :: real) powr (real_of_int (1000 - 1000) / (1000 * 60 * 60 * 24) / 30) = 1"
    by simp
  then show ?thesis
    by (simp add: evaluateImportance_def compressedPinned_def testMemory_def Let_def)
qed

lemma pinned_returns_argument: "compressReturnsArgument 1000 compressedPinned (Some 0)"
  by (simp add: compressReturnsArgument_def effectiveLevel_def determineCompressionLevel_def
      importance_pinned)

text \<open>
  Claim C9 as stated fails: a pinned record that was compressed before has the text
  \<open>answer\<close> and the original text \<open>answer in english\<close>. Its importance is 1, so
  \<open>compress\<close> at the level \<open>NONE\<close> returns it unchanged, and \<open>decompress\<close> then sets the
  text to \<open>answer in english\<close>, not to the text before the compression.
\<close>

theorem decompress_compress_counterexample:
  "body_text (body compressedPinned) = js ''answer''
   \<and> body_text (body (decompress (compress prefixSummarisers 1000 compressedPinned (Some 0))))
       = js ''answer in english''
   \<and> js ''answer in english'' \<noteq> js ''answer''"
proof -
  have o: "original_text (body compressedPinned) = Some (js ''answer in english'')"
    and b: "body_text (body compressedPinned) = js ''answer''"
    by (simp_all add: compressedPinned_def testMemory_def Let_def)
  have n: "js ''answer in english'' \<noteq> []" "js ''answer in english'' \<noteq> js ''answer''"
    by (simp_all add: js_def)
  show ?thesis
    using pinned_returns_argument n by (simp add: decompress_compress o b)
qed

text \<open>
  The theorem for a record that was never compressed, at the level \<open>MEDIUM\<close>, and for
  the compressed pinned record at the level \<open>NONE\<close>.
\<close>

theorem decompress_compress_text_witness:
  "\<not> compressReturnsArgument 2000 newMemory (Some 2)
   \<and> body_text (body (decompress (compress prefixSummarisers 2000 newMemory (Some 2))))
       = body_text (body newMemory)
   \<and> compressReturnsArgument 1000 compressedPinned (Some 0)
   \<and> body_text (body (decompress (compress prefixSummarisers 1000 compressedPinned (Some 0))))
       = js ''answer in english''"
proof -
  have a: "\<not> compressReturnsArgument 2000 newMemory (Some 2)"
    by (simp add: compressReturnsArgument_def effectiveLevel_def newMemory_def testMemory_def js_def)
  have o: "original_text (body compressedPinned) = Some (js ''answer in english'')"
    by (simp add: compressedPinned_def testMemory_def Let_def)
  have n: "js ''answer in english'' \<noteq> []"
    by (simp add: js_def)
  have 1: "body_text (body (decompress (compress prefixSummarisers 2000 newMemory (Some 2))))
       = body_text (body newMemory)"
    using a decompress_compress_text[of 2000 newMemory "Some 2" prefixSummarisers] by blast
  have 2: "body_text (body (decompress (compress prefixSummarisers 1000 compressedPinned (Some 0))))
       = js ''answer in english''"
    using pinned_returns_argument o n
      decompress_compress_text[of 1000 compressedPinned "Some 0" prefixSummarisers] by blast
  from a 1 pinned_returns_argument 2 show ?thesis by blast
qed

section \<open>Tiered storage\<close>

lemma determineTier_cold:
  "lastUsedAt (lifecycle (meta memory)) = Some t \<Longrightarrow> days 30 \<le> now - t \<Longrightarrow> determineTier now memory = Cold"
  by (simp add: determineTier_def days_def Let_def)

lemma determineTier_40_days:
  "lastUsedAt (lifecycle (meta memory)) = Some (now - days 40) \<Longrightarrow> determineTier now memory = Cold"
  by (simp add: determineTier_def days_def Let_def)

lemma new_fields:
  "body_text (body newMemory) = js ''i like python''"
  "meta_id (meta newMemory) = ''mem_2''"
  "lastUsedAt (lifecycle (meta newMemory)) = Some 2000"
  "storage_tier (meta newMemory) = None"
  by (simp_all add: newMemory_def testMemory_def)

lemma text_nonempty: "js ''i like python'' \<noteq> []"
  by (simp add: js_def)

lemma add_hot:
  "hs_add ops emptyStorage 2000 newMemory
     = (let m = compress ops 2000 newMemory (Some 2);
            m' = m\<lparr>meta := (meta m)\<lparr>storage_tier := Some Hot, last_migrated := Some 2000\<rparr>\<rparr>
        in (m', emptyStorage\<lparr>hotCache := [(''mem_2'', m')]\<rparr>))"
proof -
  have t: "determineTier 2000 newMemory = Hot"
    by (simp add: determineTier_def new_fields days_def)
  have i: "meta_id (meta (compress ops 2000 newMemory (Some 2))) = ''mem_2''"
    by (simp add: compress_def Let_def new_fields)
  show ?thesis
    unfolding hs_add_def t Let_def storeToTier_def
    by (simp add: emptyStorage_def i)
qed


lemma compress_meta:
  "meta_id (meta (compress ops now m lvl)) = meta_id (meta m)"
  "storage_tier (meta (compress ops now m lvl)) = storage_tier (meta m)"
  "lifecycle (meta (compress ops now m lvl)) = lifecycle (meta m)"
  by (simp_all add: compress_def Let_def)

lemma migrateToTier_outside_cache:
  "mapGet (hotCache hs) i = None \<Longrightarrow> migrateToTier ops hs now i t = (None, hs)"
  by (simp add: migrateToTier_def)

lemma hs_get_outside_cache:
  assumes "mapGet (hotCache hs) i = None"
  shows "hs_get ops hs now i = (None, hs)"
  using assms
  by (simp add: hs_get_def migrateToTier_outside_cache split: option.splits)

lemma store_add_id:
  "meta_id (meta m) \<noteq> [] \<Longrightarrow> store_add st m now = (meta_id (meta m), writeFile st m)"
  by (simp add: store_add_def del: decimal.simps)

lemma cycle_to_warm:
  assumes c: "hotCache hs = [(''mem_2'', m)]" and w: "warmStore hs = []"
    and a: "autoCompress hs"
    and i: "meta_id (meta m) = ''mem_2''" and t: "storage_tier (meta m) = Some Hot"
    and l: "lastUsedAt (lifecycle (meta m)) = Some 2000"
  shows "hotCache (runCompressionCycle ops hs (2000 + days 10)) = []
       \<and> map (\<lambda>r. (meta_id (meta r), storage_tier (meta r)))
            (warmStore (runCompressionCycle ops hs (2000 + days 10))) = [(''mem_2'', Some Warm)]
       \<and> coldStore (runCompressionCycle ops hs (2000 + days 10)) = coldStore hs"
proof -
  have d: "determineTier (2000 + days 10) m = Warm"
    by (simp add: determineTier_def l days_def)
  define p0 where "p0 = compress ops (2000 + days 10) m (Some 2)"
  define p where "p = p0\<lparr>meta := (meta p0)\<lparr>storage_tier := Some Warm,
               last_migrated := Some (2000 + days 10)\<rparr>\<rparr>"
  have pid: "meta_id (meta p) = ''mem_2''" and pt: "storage_tier (meta p) = Some Warm"
    by (simp_all add: p_def p0_def compress_meta i)
  have add: "store_add [] p (2000 + days 10) = (''mem_2'', [p])"
    using store_add_id[of p "[]" "2000 + days 10"] by (simp add: pid)
  have st: "storeToTier ops (hs\<lparr>hotCache := mapDelete (hotCache hs) ''mem_2''\<rparr>) (2000 + days 10) m Warm
          = (p, compressReturnsArgument (2000 + days 10) m (Some 2),
             hs\<lparr>hotCache := [], warmStore := [p]\<rparr>)"
    unfolding storeToTier_def Let_def
    using pid by (simp add: a w c mapDelete_def add p_def[symmetric] p0_def[symmetric])
  have mg: "migrateToTier ops hs (2000 + days 10) ''mem_2'' Warm
          = (Some (if compressReturnsArgument (2000 + days 10) m (Some 2) then p else m),
             hs\<lparr>hotCache := [], warmStore := [p]\<rparr>)"
    unfolding migrateToTier_def Let_def
    by (simp add: c mapGet_def t st[unfolded c])
  have "runCompressionCycle ops hs (2000 + days 10) = hs\<lparr>hotCache := [], warmStore := [p]\<rparr>"
    unfolding runCompressionCycle_def cycleStep_def Let_def
    by (simp add: c t d i mg)
  then show ?thesis by (simp add: pid pt)
qed


lemma mapGet_mapSet: "mapGet (mapSet kvs k v) k' = (if k' = k then Some v else mapGet kvs k')"
  by (induction kvs) (auto simp: mapGet_def)

lemma determineTier_now:
  "lastUsedAt (lifecycle (meta m)) = Some now \<Longrightarrow> determineTier now m = Hot"
  by (simp add: determineTier_def days_def)

lemma storeToTier_hot:
  "storeToTier ops hs now m Hot = (p, same, hs') \<Longrightarrow>
     mapGet (hotCache hs') (meta_id (meta m)) = Some p \<and> storage_tier (meta p) = Some Hot"
  by (auto simp: storeToTier_def Let_def compress_meta mapGet_mapSet)

lemma hs_get_cached_promotes:
  assumes g: "mapGet (hotCache hs) i = Some mem" and k: "meta_id (meta mem) = i"
    and t: "storage_tier (meta mem) = Some Warm \<or> storage_tier (meta mem) = Some Cold"
  shows "\<exists>m'. mapGet (hotCache (snd (hs_get ops hs now i))) i = Some m'
               \<and> storage_tier (meta m') = Some Hot"
proof -
  define mem1 where "mem1 = mem\<lparr>meta := (meta mem)\<lparr>lifecycle :=
                       (lifecycle (meta mem))\<lparr>lastUsedAt := Some now\<rparr>\<rparr>\<rparr>"
  define hs1 where "hs1 = hs\<lparr>hotCache := mapSet (hotCache hs) i mem1\<rparr>"
  have d: "determineTier now mem1 = Hot"
    by (rule determineTier_now) (simp add: mem1_def)
  have t1: "storage_tier (meta mem1) = storage_tier (meta mem)" and k1: "meta_id (meta mem1) = i"
    by (simp_all add: mem1_def k)
  have g1: "mapGet (hotCache hs1) i = Some mem1"
    by (simp add: hs1_def mapGet_mapSet)
  have tch: "touch ops hs now i = migrateToTier ops hs1 now i Hot"
    using t by (auto simp: touch_def g Let_def mem1_def[symmetric] hs1_def[symmetric] d t1)
  define hs2 where "hs2 = (case storage_tier (meta mem1) of
                             Some Warm \<Rightarrow> hs1\<lparr>warmStore := store_delete (warmStore hs1) i\<rparr>
                           | _ \<Rightarrow> hs1\<lparr>coldStore := store_delete (coldStore hs1) i\<rparr>)"
  obtain p same hs3 where st: "storeToTier ops hs2 now mem1 Hot = (p, same, hs3)"
    by (cases "storeToTier ops hs2 now mem1 Hot") auto
  have m: "snd (migrateToTier ops hs1 now i Hot) = hs3"
    using t
  proof
    assume w: "storage_tier (meta mem) = Some Warm"
    then have "storeToTier ops (hs1\<lparr>warmStore := store_delete (warmStore hs1) i\<rparr>) now mem1 Hot
                 = (p, same, hs3)"
      using st by (simp add: hs2_def t1)
    then show ?thesis
      by (simp add: migrateToTier_def g1 Let_def t1 w)
  next
    assume c: "storage_tier (meta mem) = Some Cold"
    then have "storeToTier ops (hs1\<lparr>coldStore := store_delete (coldStore hs1) i\<rparr>) now mem1 Hot
                 = (p, same, hs3)"
      using st by (simp add: hs2_def t1)
    then show ?thesis
      by (simp add: migrateToTier_def g1 Let_def t1 c)
  qed
  from storeToTier_hot[OF st] have "mapGet (hotCache hs3) i = Some p \<and> storage_tier (meta p) = Some Hot"
    by (simp add: k1)
  moreover have "snd (hs_get ops hs now i) = hs3"
    by (simp add: hs_get_def g tch m)
  ultimately show ?thesis by auto
qed

text \<open>
  Claim C4 on the code. A record whose \<open>lastUsedAt\<close> is 40 days in the past is
  classified cold (\<open>determineTier_40_days\<close>), and \<open>get\<close> does promote a warm or cold
  record that the hot cache holds as well, as it does right after \<open>add\<close>
  (\<open>hs_get_cached_promotes\<close>). But \<open>get\<close> on an id that only the warm or the cold store
  holds returns nothing and changes nothing (\<open>hs_get_outside_cache\<close>): \<open>migrateToTier\<close>
  looks the record up in the hot cache. Such a state is reached as follows, whatever
  the summarisers: a record used at time 2000 is added (hot); the compression cycle
  runs 10 days later and moves it from the hot cache to the warm store; \<open>get\<close> then
  returns nothing, the record stays in the warm store with \<open>storage_tier\<close> warm, a query
  returns no record, and a query over all tiers returns it as warm.
\<close>

theorem hs_get_outside_cache_not_promoted:
  "(let hs1 = snd (hs_add ops emptyStorage 2000 newMemory);
        hs2 = runCompressionCycle ops hs1 (2000 + days 10);
        (r, hs3) = hs_get ops hs2 (2000 + days 10) ''mem_2''
    in map (\<lambda>(k, m). (k, storage_tier (meta m))) (hotCache hs1) = [(''mem_2'', Some Hot)]
       \<and> hotCache hs2 = []
       \<and> map (\<lambda>m. (meta_id (meta m), storage_tier (meta m))) (warmStore hs2) = [(''mem_2'', Some Warm)]
       \<and> r = None \<and> hs3 = hs2
       \<and> hs_query hs3 hotOnly = []
       \<and> map (\<lambda>m. (meta_id (meta m), storage_tier (meta m))) (hs_query hs3 allTiers)
           = [(''mem_2'', Some Warm)])"
proof -
  define m where "m = compress ops 2000 newMemory (Some 2)"
  define m' where "m' = m\<lparr>meta := (meta m)\<lparr>storage_tier := Some Hot, last_migrated := Some 2000\<rparr>\<rparr>"
  define hs1 where "hs1 = emptyStorage\<lparr>hotCache := [(''mem_2'', m')]\<rparr>"
  define hs2 where "hs2 = runCompressionCycle ops hs1 (2000 + days 10)"
  have a: "snd (hs_add ops emptyStorage 2000 newMemory) = hs1"
    by (simp add: add_hot Let_def hs1_def m'_def m_def)
  have f: "meta_id (meta m') = ''mem_2''" "storage_tier (meta m') = Some Hot"
    "lastUsedAt (lifecycle (meta m')) = Some 2000"
    by (simp_all add: m'_def m_def compress_meta new_fields)
  have c: "hotCache hs2 = []
       \<and> map (\<lambda>r. (meta_id (meta r), storage_tier (meta r))) (warmStore hs2) = [(''mem_2'', Some Warm)]
       \<and> coldStore hs2 = coldStore hs1"
    unfolding hs2_def
    by (rule cycle_to_warm[where m = m']) (simp_all add: hs1_def emptyStorage_def f)
  then have g: "hs_get ops hs2 (2000 + days 10) ''mem_2'' = (None, hs2)"
    by (intro hs_get_outside_cache) (simp add: mapGet_def)
  have q1: "hs_query hs2 hotOnly = []"
    using c by (simp add: hs_query_def hotOnly_def)
  have cold: "coldStore hs2 = []"
    using c by (simp add: hs1_def emptyStorage_def)
  have tr: "filters.truncate allTiers = noFilters"
    by (simp add: allTiers_def noFilters_def filters.truncate_def)
  have qa: "\<And>st. query st noFilters = st"
    by (simp add: query_def matchesFilters_def noFilters_def)
  have fl: "\<And>xs acc. foldl (\<lambda>results m. results @ [m]) acc (xs::V5Memory list) = acc @ xs"
    subgoal for xs acc by (induction xs arbitrary: acc) simp_all
    done
  have ia: "includeAllTiers allTiers"
    by (simp add: allTiers_def)
  have q2: "hs_query hs2 allTiers = warmStore hs2"
    using c by (simp add: hs_query_def ia tr qa cold Let_def fl)
  have h1: "map (\<lambda>(k, m). (k, storage_tier (meta m))) (hotCache hs1) = [(''mem_2'', Some Hot)]"
    by (simp add: hs1_def f)
  show ?thesis
    unfolding Let_def a hs2_def[symmetric] g
    using h1 c q1 q2 by simp
qed

end
